theory Spec2Isabelle
  imports Main "HOL-Library.Word"
begin

section \<open>Common data of the ExodusII reader (ReadNCDF.cpp)\<close>

text \<open>
  The error codes that ReadNCDF.cpp returns. The enumeration itself is declared by the
  mesh database; only the codes named in the source file are listed.
\<close>

datatype ErrorCode =
    MB_SUCCESS
  | MB_TYPE_OUT_OF_RANGE
  | MB_ENTITY_NOT_FOUND
  | MB_TAG_NOT_FOUND
  | MB_FILE_DOES_NOT_EXIST
  | MB_NOT_IMPLEMENTED
  | MB_INVALID_SIZE
  | MB_UNSUPPORTED_OPERATION
  | MB_FAILURE

text \<open>
  The outcome of a member function: it returns normally with a value, it returns an
  error code, or it reads or writes outside an array (undefined behaviour in C++, which
  the model makes a value of its own instead of inventing a result).
\<close>

datatype 'a outcome = Ok 'a | Err ErrorCode | Undefined

type_synonym EntityHandle = nat

text \<open>
  \<open>ExoIIElementType\<close> is an enumeration declared outside ReadNCDF.cpp; the source only
  compares its values in ranges. An element type is its ordinal, and the ordinals the
  source names are taken as a parameter.
\<close>

type_synonym ExoIIElementType = nat

record exo_enum =
  EXOII_TRI :: nat
  EXOII_TRI7 :: nat
  EXOII_QUAD :: nat
  EXOII_QUAD9 :: nat
  EXOII_SHELL :: nat
  EXOII_SHELL9 :: nat
  EXOII_TETRA :: nat
  EXOII_TETRA14 :: nat
  EXOII_HEX :: nat
  EXOII_HEX27 :: nat
  EXOII_MAX_ELEM_TYPE :: nat

text \<open>
  The ordinals of the mesh database's own declaration (sphere = 0, then the spring, bar,
  beam, truss, tri, quad, shell, tetra, pyramid, wedge, knife, hex and hex-shell families),
  as one instance of the parameter.
\<close>

definition moab_enum :: exo_enum where
  "moab_enum = \<lparr> EXOII_TRI = 11, EXOII_TRI7 = 14, EXOII_QUAD = 15, EXOII_QUAD9 = 19,
      EXOII_SHELL = 20, EXOII_SHELL9 = 24, EXOII_TETRA = 25, EXOII_TETRA14 = 29,
      EXOII_HEX = 37, EXOII_HEX27 = 41, EXOII_MAX_ELEM_TYPE = 43 \<rparr>"

text \<open>
  \<open>ReadBlockData\<close>, one entry of \<open>blocksLoading\<close>. \<open>startMBId\<close> is left unset by
  \<open>read_block_headers\<close> and assigned by \<open>read_elements\<close>.
\<close>

record ReadBlockData =
  blockId :: int
  startExoId :: int
  startMBId :: EntityHandle
  numElements :: int
  reading_in :: bool
  elemType :: ExoIIElementType

section \<open>read\_block\_headers\<close>

text \<open>
  A NetCDF dimension looked up by name: absent, present but invalid, or present with a
  size. \<open>dimension_exists\<close> walks the dimensions of the file and answers true only for a
  valid dimension of that name. \<open>GET_DIMB\<close> is the macro of the same name: when the
  dimension exists it is fetched and its size read (the enclosing function returns
  \<open>MB_FAILURE\<close> if the fetched dimension is not valid), else the value is zero. So an
  invalid dimension reads as zero, like an absent one.
\<close>

datatype dim_lookup = Dim_absent | Dim_invalid | Dim_size int

definition dimension_exists :: "dim_lookup \<Rightarrow> bool" where
  "dimension_exists d = (case d of Dim_size n \<Rightarrow> True | Dim_invalid \<Rightarrow> False | Dim_absent \<Rightarrow> False)"

definition GET_DIMB :: "dim_lookup \<Rightarrow> int outcome" where
  "GET_DIMB d =
     (if dimension_exists d then
        (case d of Dim_size n \<Rightarrow> Ok n | Dim_invalid \<Rightarrow> Err MB_FAILURE | Dim_absent \<Rightarrow> Err MB_FAILURE)
      else Ok 0)"

text \<open>
  What \<open>read_block_headers\<close> reads from the file: the variable \<open>eb_prop1\<close> (\<open>None\<close> when
  the variable is missing, invalid, or cannot be read) and the three dimensions of block
  number \<open>k\<close>, whose names the source formats with \<open>num_el_in_blk%d\<close>,
  \<open>num_nod_per_el%d\<close> and \<open>num_att_in_blk%d\<close>.
\<close>

record block_header_file =
  eb_prop1 :: "int list option"
  num_el_in_blk :: "nat \<Rightarrow> dim_lookup"
  num_nod_per_el :: "nat \<Rightarrow> dim_lookup"
  num_att_in_blk :: "nat \<Rightarrow> dim_lookup"

text \<open>
  A \<open>std::vector<int>::iterator\<close>: the vector it belongs to and a position in it. Two
  iterators are equal when both components are; iterators into the two distinct live
  vectors \<open>block_ids\<close> and \<open>new_blocks\<close> never are.
\<close>

datatype vec_id = Vec_block_ids | Vec_new_blocks

type_synonym vec_iter = "vec_id \<times> nat"

definition vec_end :: "vec_id \<Rightarrow> int list \<Rightarrow> vec_iter" where
  "vec_end v xs = (v, length xs)"

text \<open>\<open>std::find\<close> over a whole vector: the first position holding \<open>x\<close>, or the end.\<close>

definition std_find :: "vec_id \<Rightarrow> int list \<Rightarrow> int \<Rightarrow> vec_iter" where
  "std_find v xs x = (v, length (takeWhile (\<lambda>y. y \<noteq> x) xs))"

text \<open>
  The constructor \<open>std::vector<int> new_blocks(p, p + n)\<close>: it copies \<open>n\<close> entries
  starting at \<open>p\<close>, whatever the length of the array behind \<open>p\<close>; reading past that
  array is undefined.
\<close>

definition copy_range :: "int list \<Rightarrow> nat \<Rightarrow> int list outcome" where
  "copy_range arr n = (if n \<le> length arr then Ok (take n arr) else Undefined)"

text \<open>
  The body of the loop over \<open>block_ids\<close>, for the block at \<open>iter\<close> with sequence number
  \<open>block_seq_id\<close>; \<open>exodus_id\<close> is the running first element id.
\<close>

definition block_header_step ::
  "exo_enum \<Rightarrow> block_header_file \<Rightarrow> int list \<Rightarrow> int list \<Rightarrow> int \<Rightarrow> nat \<Rightarrow> int
     \<Rightarrow> (ReadBlockData \<times> int) outcome" where
  "block_header_step E f block_ids new_blocks iter block_seq_id exodus_id =
     (case GET_DIMB (num_el_in_blk f block_seq_id) of
        Err e \<Rightarrow> Err e | Undefined \<Rightarrow> Undefined
      | Ok num_elements \<Rightarrow>
     (case GET_DIMB (num_nod_per_el f block_seq_id) of
        Err e \<Rightarrow> Err e | Undefined \<Rightarrow> Undefined
      | Ok num_nodes_per_element \<Rightarrow>
     (case GET_DIMB (num_att_in_blk f block_seq_id) of
        Err e \<Rightarrow> Err e | Undefined \<Rightarrow> Undefined
      | Ok num_attribs \<Rightarrow>
          Ok (\<lparr> blockId = iter, startExoId = exodus_id, startMBId = 0,
                 numElements = num_elements,
                 reading_in = (std_find Vec_new_blocks new_blocks iter
                                 \<noteq> vec_end Vec_block_ids block_ids),
                 elemType = EXOII_MAX_ELEM_TYPE E \<rparr>,
              exodus_id + num_elements))))"

fun block_header_loop ::
  "exo_enum \<Rightarrow> block_header_file \<Rightarrow> int list \<Rightarrow> int list \<Rightarrow> int list \<Rightarrow> nat \<Rightarrow> int
     \<Rightarrow> ReadBlockData list \<Rightarrow> ReadBlockData list outcome" where
  "block_header_loop E f block_ids new_blocks [] block_seq_id exodus_id blocksLoading =
     Ok blocksLoading"
| "block_header_loop E f block_ids new_blocks (iter # rest) block_seq_id exodus_id blocksLoading =
     (case block_header_step E f block_ids new_blocks iter block_seq_id exodus_id of
        Err e \<Rightarrow> Err e
      | Undefined \<Rightarrow> Undefined
      | Ok (block_data, exodus_id') \<Rightarrow>
          block_header_loop E f block_ids new_blocks rest (Suc block_seq_id) exodus_id'
            (blocksLoading @ [block_data]))"

text \<open>
  \<open>read_block_headers(blocks_to_load, num_blocks)\<close>. The pointer \<open>blocks_to_load\<close> is
  \<open>None\<close> when null and otherwise the caller's array; \<open>numberElementBlocks_loading\<close> is
  the size of dimension \<open>num_el_blk\<close> from the header. The result is the new value of
  \<open>blocksLoading\<close>.
\<close>

definition read_block_headers ::
  "exo_enum \<Rightarrow> block_header_file \<Rightarrow> nat \<Rightarrow> ReadBlockData list \<Rightarrow> int list option \<Rightarrow> int
     \<Rightarrow> ReadBlockData list outcome" where
  "read_block_headers E f numberElementBlocks_loading blocksLoading blocks_to_load num_blocks =
     (case eb_prop1 f of
        None \<Rightarrow> Err MB_FAILURE
      | Some ids \<Rightarrow>
          if length ids < numberElementBlocks_loading then Err MB_FAILURE
          else
            let block_ids = take numberElementBlocks_loading ids;
                blocks_to_load' =
                  (if blocks_to_load = None \<or> num_blocks = 0 then block_ids
                   else the blocks_to_load)
            in (case copy_range blocks_to_load' numberElementBlocks_loading of
                  Err e \<Rightarrow> Err e
                | Undefined \<Rightarrow> Undefined
                | Ok new_blocks \<Rightarrow>
                    block_header_loop E f block_ids new_blocks block_ids 1 1 blocksLoading))"

text \<open>What the comparison in the loop body computes: the two iterators are never equal.\<close>

lemma find_new_blocks_neq_block_ids_end:
  "std_find Vec_new_blocks new_blocks x \<noteq> vec_end Vec_block_ids block_ids"
  by (simp add: std_find_def vec_end_def)

lemma block_header_step_reading_in:
  "block_header_step E f block_ids new_blocks iter k x = Ok (b, x') \<Longrightarrow> reading_in b"
  by (auto simp: block_header_step_def find_new_blocks_neq_block_ids_end
           split: outcome.splits)

lemma block_header_loop_reading_in:
  "block_header_loop E f block_ids new_blocks its k x acc = Ok bs \<Longrightarrow>
   \<forall>b \<in> set acc. reading_in b \<Longrightarrow> \<forall>b \<in> set bs. reading_in b"
proof (induction its arbitrary: k x acc)
  case Nil
  then show ?case by simp
next
  case (Cons it its)
  from Cons.prems(1) obtain b x' where
    step: "block_header_step E f block_ids new_blocks it k x = Ok (b, x')" and
    rest: "block_header_loop E f block_ids new_blocks its (Suc k) x' (acc @ [b]) = Ok bs"
    by (auto split: outcome.splits)
  have "\<forall>c \<in> set (acc @ [b]). reading_in c"
    using Cons.prems(2) block_header_step_reading_in [OF step] by simp
  with Cons.IH [OF rest] show ?case by blast
qed

text \<open>
  Whatever list the caller passes, every block that \<open>read_block_headers\<close> records is
  marked \<open>reading_in\<close>.
\<close>

lemma read_block_headers_all_reading_in:
  "read_block_headers E f n [] blocks_to_load num_blocks = Ok bs \<Longrightarrow> b \<in> set bs \<Longrightarrow> reading_in b"
  unfolding read_block_headers_def
  by (auto simp: Let_def split: option.splits if_splits outcome.splits
           dest!: block_header_loop_reading_in)

text \<open>A file with two blocks, ids 10 and 20, of 3 and 2 elements.\<close>

definition two_block_file :: block_header_file where
  "two_block_file = \<lparr> eb_prop1 = Some [10, 20],
      num_el_in_blk = (\<lambda>k. if k = 1 then Dim_size 3 else if k = 2 then Dim_size 2 else Dim_absent),
      num_nod_per_el = (\<lambda>k. Dim_size 4),
      num_att_in_blk = (\<lambda>k. Dim_absent) \<rparr>"

text \<open>
  C1. The claim: a block is marked \<open>reading_in\<close> iff the caller's list is null or empty or
  contains the block's id. On the file above with \<open>blocks_to_load = [20, 30]\<close> the source
  marks block 10 as \<open>reading_in\<close> although 10 is not in the list: the result of
  \<open>std::find\<close> over \<open>new_blocks\<close> is compared with \<open>block_ids.end()\<close>.
\<close>

theorem read_block_headers_marks_unlisted_block:
  "read_block_headers moab_enum two_block_file 2 [] (Some [20, 30]) 2 =
     Ok [\<lparr> blockId = 10, startExoId = 1, startMBId = 0, numElements = 3,
            reading_in = True, elemType = 43 \<rparr>,
         \<lparr> blockId = 20, startExoId = 4, startMBId = 0, numElements = 2,
            reading_in = True, elemType = 43 \<rparr>]"
  by (simp add: read_block_headers_def two_block_file_def copy_range_def
        block_header_step_def GET_DIMB_def dimension_exists_def std_find_def vec_end_def moab_enum_def)

section \<open>load\_file: the subset list\<close>

text \<open>
  \<open>ReaderIface::IDTag\<close> and \<open>ReaderIface::SubsetList\<close> as \<open>load_file\<close> reads them: the
  array \<open>tag_list\<close> with its stated length, and for each entry the tag name and the
  array of values with its stated length.
\<close>

record IDTag =
  tag_name :: string
  tag_values :: "int list"
  num_tag_values :: int

record SubsetList =
  tag_list :: "IDTag list"
  tag_list_length :: int
  num_parts :: int

text \<open>
  \<open>strcmp\<close>: zero exactly for equal strings. The source only tests the result against
  zero, so the sign of a non-zero result is not modelled.
\<close>

definition strcmp :: "string \<Rightarrow> string \<Rightarrow> int" where
  "strcmp a b = (if a = b then 0 else 1)"

text \<open>
  The first statements of \<open>load_file\<close>: they return \<open>MB_UNSUPPORTED_OPERATION\<close> or set
  \<open>blocks_to_load\<close> and \<open>num_blocks\<close>. \<open>MATERIAL_SET_TAG_NAME\<close> is a constant of the mesh
  database's tag conventions, taken as a parameter. \<open>!strcmp(a, b)\<close> is
  \<open>strcmp a b = 0\<close>.
\<close>

definition load_file_subset ::
  "string \<Rightarrow> SubsetList option \<Rightarrow> (int list option \<times> int) outcome" where
  "load_file_subset MATERIAL_SET_TAG_NAME subset_list =
     (case subset_list of
        None \<Rightarrow> Ok (None, 0)
      | Some sl \<Rightarrow>
          if tag_list_length sl > 1 then Err MB_UNSUPPORTED_OPERATION
          else (case tag_list sl of
                  [] \<Rightarrow> Undefined
                | t0 # _ \<Rightarrow>
                    if strcmp (tag_name t0) MATERIAL_SET_TAG_NAME = 0
                    then Err MB_UNSUPPORTED_OPERATION
                    else if num_parts sl \<noteq> 0 then Err MB_UNSUPPORTED_OPERATION
                    else Ok (Some (tag_values t0), num_tag_values t0)))"

text \<open>
  \<open>load_file\<close>: after the subset list, the option \<open>tdata\<close> (\<open>None\<close> when the option is
  not given) sends the call to \<open>update\<close>, and otherwise the file is read. Both
  continuations receive \<open>blocks_to_load\<close> and \<open>num_blocks\<close>; they are parameters here. A
  result \<open>Ok ()\<close> is the return value \<open>MB_SUCCESS\<close>, \<open>Err e\<close> the return value \<open>e\<close>.
\<close>

definition load_file ::
  "string \<Rightarrow> string option \<Rightarrow> (int list option \<Rightarrow> int \<Rightarrow> unit outcome)
     \<Rightarrow> (int list option \<Rightarrow> int \<Rightarrow> unit outcome) \<Rightarrow> SubsetList option \<Rightarrow> unit outcome" where
  "load_file MATERIAL_SET_TAG_NAME tdata update_k read_k subset_list =
     (case load_file_subset MATERIAL_SET_TAG_NAME subset_list of
        Err e \<Rightarrow> Err e
      | Undefined \<Rightarrow> Undefined
      | Ok (blocks_to_load, num_blocks) \<Rightarrow>
          (case tdata of
             Some s \<Rightarrow> if s \<noteq> [] then update_k blocks_to_load num_blocks
                       else read_k blocks_to_load num_blocks
           | None \<Rightarrow> read_k blocks_to_load num_blocks))"

text \<open>
  For a list of one entry and no partitioning, the subset is refused exactly when its
  tag is the material tag, and a list by any other tag is passed on as the blocks to load.
\<close>

lemma load_file_subset_single:
  "load_file_subset M (Some \<lparr> tag_list = [t], tag_list_length = 1, num_parts = 0 \<rparr>) =
     (if tag_name t = M then Err MB_UNSUPPORTED_OPERATION
      else Ok (Some (tag_values t), num_tag_values t))"
  by (simp add: load_file_subset_def strcmp_def)

text \<open>
  C2. The claim: a single-part, non-empty material-id subset list is accepted and its
  values are the blocks to load. On such a list \<open>load_file\<close> returns
  \<open>MB_UNSUPPORTED_OPERATION\<close>, whatever the rest of the call would do: the source tests
  \<open>!strcmp(tag_name, MATERIAL_SET_TAG_NAME)\<close>, which holds when the names are equal.
\<close>

theorem load_file_refuses_material_subset:
  "load_file M tdata update_k read_k
     (Some \<lparr> tag_list = [\<lparr> tag_name = M, tag_values = [1, 2], num_tag_values = 2 \<rparr>],
             tag_list_length = 1, num_parts = 0 \<rparr>)
   = Err MB_UNSUPPORTED_OPERATION"
  by (simp add: load_file_def load_file_subset_def strcmp_def)

section \<open>read\_elements: connectivity conversion\<close>

text \<open>
  The loop of \<open>read_elements\<close> that turns the connectivity read from \<open>connect<k>\<close> into
  vertex handles. \<open>tmp_ptr\<close> holds the \<open>number_nodes\<close> 32-bit integers read from the file;
  \<open>(unsigned)tmp_ptr[i]\<close> is \<open>unat\<close>. \<open>nodesInLoadedBlocks\<close> has \<open>numberNodes_loading + 1\<close>
  entries. The loop runs from \<open>number_nodes - 1\<close> down to 0: the counter of the model is
  \<open>i + 1\<close>. \<open>conn\<close> and \<open>tmp_ptr\<close> share their memory in the source; entry \<open>i\<close> of \<open>conn\<close>
  covers entries \<open>2i\<close> and \<open>2i + 1\<close> of \<open>tmp_ptr\<close>, which the downward loop no longer
  reads, so the two arrays are separate here.
\<close>

fun convert_loop ::
  "nat \<Rightarrow> 32 word list \<Rightarrow> nat \<Rightarrow> bool list \<Rightarrow> EntityHandle list
     \<Rightarrow> (bool list \<times> EntityHandle list) outcome" where
  "convert_loop vertexOffset tmp_ptr 0 nodesInLoadedBlocks conn = Ok (nodesInLoadedBlocks, conn)"
| "convert_loop vertexOffset tmp_ptr (Suc i) nodesInLoadedBlocks conn =
     (if unat (tmp_ptr ! i) \<ge> length nodesInLoadedBlocks then Err MB_FAILURE
      else convert_loop vertexOffset tmp_ptr i
             (nodesInLoadedBlocks[unat (tmp_ptr ! i) := True])
             (conn[i := unat (tmp_ptr ! i) + vertexOffset]))"

text \<open>
  The conversion of one block, from the state \<open>read_elements\<close> sets up: no node touched
  yet, and a connectivity array of \<open>number_nodes\<close> entries.
\<close>

definition convert_connectivity ::
  "nat \<Rightarrow> nat \<Rightarrow> 32 word list \<Rightarrow> (bool list \<times> EntityHandle list) outcome" where
  "convert_connectivity numberNodes_loading vertexOffset tmp_ptr =
     convert_loop vertexOffset tmp_ptr (length tmp_ptr)
       (replicate (numberNodes_loading + 1) False) (replicate (length tmp_ptr) 0)"

lemma convert_loop_ok_iff:
  "k \<le> length tmp \<Longrightarrow>
   (\<exists>r. convert_loop vo tmp k touched conn = Ok r) \<longleftrightarrow>
   (\<forall>i < k. unat (tmp ! i) < length touched)"
proof (induction k arbitrary: touched conn)
  case 0
  then show ?case by simp
next
  case (Suc k)
  have "k \<le> length tmp" using Suc.prems by simp
  from Suc.IH [OF this, of "touched[unat (tmp ! k) := True]"]
  show ?case by (auto simp: less_Suc_eq)
qed

text \<open>
  The loop accepts an entry exactly when it lies in \<open>0 .. numberNodes_loading\<close>, read as
  an unsigned number: the conversion succeeds iff every entry does.
\<close>

lemma convert_connectivity_ok_iff:
  "(\<exists>r. convert_connectivity n vo tmp = Ok r) \<longleftrightarrow> (\<forall>w \<in> set tmp. unat w \<le> n)"
proof -
  have "(\<exists>r. convert_connectivity n vo tmp = Ok r) \<longleftrightarrow> (\<forall>i < length tmp. unat (tmp ! i) < n + 1)"
    unfolding convert_connectivity_def
    using convert_loop_ok_iff [of "length tmp" tmp vo "replicate (n + 1) False"]
    by simp
  also have "\<dots> \<longleftrightarrow> (\<forall>w \<in> set tmp. unat w \<le> n)"
    by (fastforce simp: in_set_conv_nth less_Suc_eq_le)
  finally show ?thesis .
qed

text \<open>
  C3. The claim: an entry is accepted exactly when it lies in \<open>1 .. numNodes\<close>, and any
  other entry makes \<open>read_elements\<close> fail. With 4 nodes and vertex offset 100 (the
  vertices are the handles 101 to 104), the row \<open>[0, 1, 2, 3]\<close> is accepted: entry 0
  passes the test against \<open>nodesInLoadedBlocks.size()\<close>, is mapped to handle 100 and
  marks \<open>nodesInLoadedBlocks[0]\<close>.
\<close>

theorem convert_connectivity_accepts_zero:
  "convert_connectivity 4 100 [0, 1, 2, 3] =
     Ok ([True, True, True, True, False], [100, 101, 102, 103])"
  by code_simp

section \<open>The mesh database and the element catalogue, as the reader uses them\<close>

text \<open>
  The mesh database and the topology catalogue are external to ReadNCDF.cpp: the source
  only calls them. The definitions of this section and of the section on meshsets and
  tags stand for the part of their interface that the side-set and node-set code uses;
  the reader's own functions in the other sections are translated from the source.
  \<open>EntityType\<close> is the database's enumeration of entity types.
\<close>

datatype EntityType =
    MBVERTEX | MBEDGE | MBTRI | MBQUAD | MBPOLYGON | MBTET | MBPYRAMID | MBPRISM
  | MBKNIFE | MBHEX | MBPOLYHEDRON | MBENTITYSET | MBMAXTYPE

text \<open>The connectivity of an entity: its vertex handles, in order.\<close>

type_synonym connectivity = "EntityHandle list"

text \<open>
  Modelled from the spec: the state of the mesh database (entity creation, tagging,
  adjacency, meshsets), whose code is not in ReadNCDF.cpp. The tags are those the reader
  sets on meshsets. The state is the next unused handle,
  the elements in creation order (handle, type, connectivity), the meshsets (whether
  ordered, and the contents), the integer tags with the default value of each (a tag
  created with a default reads as that default where it was never set), and the
  variable-length \<open>distFactor\<close> tag. \<open>'d\<close> is the type of a distribution factor.
\<close>

datatype Tag = MaterialSetTag | DirichletSetTag | NeumannSetTag | GlobalIdTag | SenseTag

record 'd mesh_db =
  db_next :: EntityHandle
  db_ents :: "(EntityHandle \<times> EntityType \<times> connectivity) list"
  db_sets :: "EntityHandle \<rightharpoonup> bool \<times> EntityHandle list"
  db_tags :: "Tag \<Rightarrow> EntityHandle \<rightharpoonup> int"
  db_tag_default :: "Tag \<Rightarrow> int option"
  db_dist_factor :: "EntityHandle \<rightharpoonup> 'd list"

text \<open>
  The tables and functions of the topology catalogue and of the handle encoding that the
  source calls and that are declared elsewhere, as a parameter: \<open>CN::Dimension\<close>,
  \<open>CN::SubEntityNodeIndices\<close> (parent type, number of parent nodes, sub-entity dimension
  and index; it gives the sub-entity type and the node indices, whose number is
  \<open>num_side_nodes\<close>), \<open>ExoIIUtil::ExoIIElementMBEntity\<close> and \<open>CREATE_HANDLE\<close>.
\<close>

record catalog =
  Dimension :: "EntityType \<Rightarrow> nat"
  SubEntityNodeIndices :: "EntityType \<Rightarrow> nat \<Rightarrow> nat \<Rightarrow> int \<Rightarrow> EntityType \<times> nat list"
  ExoIIElementMBEntity :: "ExoIIElementType \<Rightarrow> EntityType"
  CREATE_HANDLE :: "EntityType \<Rightarrow> int \<Rightarrow> EntityHandle"

text \<open>
  Modelled from the spec: three calls of the mesh database, whose code is not in
  ReadNCDF.cpp. \<open>get_connectivity\<close> of one entity; \<open>get_adjacencies\<close> from one vertex to
  the entities of a dimension that contain it, in handle order (nothing is created);
  \<open>create_element\<close>, which takes the next handle.
\<close>

definition get_connectivity :: "'d mesh_db \<Rightarrow> EntityHandle \<Rightarrow> connectivity option" where
  "get_connectivity db h = map_option snd (map_of (db_ents db) h)"

definition get_adjacencies :: "catalog \<Rightarrow> 'd mesh_db \<Rightarrow> EntityHandle \<Rightarrow> nat \<Rightarrow> EntityHandle list" where
  "get_adjacencies C db v to_dim =
     map fst (filter (\<lambda>(h, t, c). Dimension C t = to_dim \<and> v \<in> set c) (db_ents db))"

definition create_element ::
  "'d mesh_db \<Rightarrow> EntityType \<Rightarrow> connectivity \<Rightarrow> EntityHandle \<times> 'd mesh_db" where
  "create_element db type connectivity =
     (db_next db,
      db\<lparr> db_next := Suc (db_next db),
          db_ents := db_ents db @ [(db_next db, type, connectivity)] \<rparr>)"

text \<open>
  One instance of the catalogue: the dimensions, the entity type of each element type of
  \<open>moab_enum\<close>, and the handle of a vertex (type 0, so the handle is the id). The
  sub-entity table is left empty.
\<close>

definition moab_catalog :: catalog where
  "moab_catalog = \<lparr>
     Dimension = (\<lambda>t. case t of MBVERTEX \<Rightarrow> 0 | MBEDGE \<Rightarrow> 1 | MBTRI \<Rightarrow> 2 | MBQUAD \<Rightarrow> 2
                      | MBPOLYGON \<Rightarrow> 2 | MBENTITYSET \<Rightarrow> 4 | MBMAXTYPE \<Rightarrow> 5 | _ \<Rightarrow> 3),
     SubEntityNodeIndices = (\<lambda>t n d i. (MBMAXTYPE, [])),
     ExoIIElementMBEntity = (\<lambda>e. if e = 0 then MBVERTEX else if e \<le> 10 then MBEDGE
                      else if e \<le> 14 then MBTRI else if e \<le> 24 then MBQUAD
                      else if e \<le> 29 then MBTET else if e \<le> 34 then MBPYRAMID
                      else if e = 35 then MBPRISM else if e = 36 then MBKNIFE
                      else if e \<le> 42 then MBHEX else MBMAXTYPE),
     CREATE_HANDLE = (\<lambda>t i. nat i) \<rparr>"

section \<open>create\_sideset\_element\<close>

text \<open>
  \<open>std::find(match_conn.begin(), match_conn.end(), v)\<close> as a position (the length when
  \<open>v\<close> is absent), and \<open>std::rotate(begin, begin + i, end)\<close>.
\<close>

definition find_pos :: "'a list \<Rightarrow> 'a \<Rightarrow> nat" where
  "find_pos xs x = length (takeWhile (\<lambda>y. y \<noteq> x) xs)"

definition std_rotate :: "nat \<Rightarrow> 'a list \<Rightarrow> 'a list" where
  "std_rotate i xs = drop i xs @ take i xs"

text \<open>
  The first comparison loop of \<open>create_sideset_element\<close>,
  \<open>for (j = 1; j < connectivity.size(); j++)\<close>, from position \<open>j\<close> on: the value of
  \<open>they_match\<close> when the loop ends or breaks.
\<close>

function same_sense :: "connectivity \<Rightarrow> connectivity \<Rightarrow> nat \<Rightarrow> bool" where
  "same_sense connectivity match_conn j =
     (if j < length connectivity
      then (if connectivity ! j \<noteq> match_conn ! j then False
            else same_sense connectivity match_conn (Suc j))
      else True)"
  by pat_completeness auto
termination
  by (relation "measure (\<lambda>(c, m, j). length c - j)") auto

text \<open>
  The second loop ("try the opposite sense"): \<open>j\<close> counts up from 1 while the unsigned
  \<open>k\<close> counts down from \<open>connectivity.size() - 1\<close>. \<open>k\<close> is decremented once per
  comparison and at least 1 whenever it is read, so it never wraps.
\<close>

function opposite_sense :: "connectivity \<Rightarrow> connectivity \<Rightarrow> nat \<Rightarrow> nat \<Rightarrow> bool" where
  "opposite_sense connectivity match_conn j k =
     (if j < length connectivity
      then (if connectivity ! j \<noteq> match_conn ! k then False
            else opposite_sense connectivity match_conn (Suc j) (k - 1))
      else True)"
  by pat_completeness auto
termination
  by (relation "measure (\<lambda>(c, m, j, k). length c - j)") auto

declare same_sense.simps [simp del] opposite_sense.simps [simp del]

lemma same_sense_iff:
  "same_sense c m j \<longleftrightarrow> (\<forall>i. j \<le> i \<and> i < length c \<longrightarrow> c ! i = m ! i)"
proof (induction c m j rule: same_sense.induct)
  case (1 c m j)
  show ?case
  proof (cases "j < length c \<and> c ! j = m ! j")
    case True
    then have "same_sense c m j = same_sense c m (Suc j)"
      by (subst same_sense.simps) simp
    also have "\<dots> \<longleftrightarrow> (\<forall>i. Suc j \<le> i \<and> i < length c \<longrightarrow> c ! i = m ! i)"
      using 1 True by simp
    also have "\<dots> \<longleftrightarrow> (\<forall>i. j \<le> i \<and> i < length c \<longrightarrow> c ! i = m ! i)"
      using True by (metis Suc_leI le_neq_implies_less Suc_leD)
    finally show ?thesis .
  next
    case False
    then show ?thesis
      by (subst same_sense.simps) auto
  qed
qed

lemma opposite_sense_iff:
  "opposite_sense c m j k \<longleftrightarrow> (\<forall>i. j \<le> i \<and> i < length c \<longrightarrow> c ! i = m ! (k - (i - j)))"
proof (induction c m j k rule: opposite_sense.induct)
  case (1 c m j k)
  show ?case
  proof (cases "j < length c \<and> c ! j = m ! k")
    case True
    then have "opposite_sense c m j k = opposite_sense c m (Suc j) (k - 1)"
      by (subst opposite_sense.simps) simp
    also have "\<dots> \<longleftrightarrow> (\<forall>i. Suc j \<le> i \<and> i < length c \<longrightarrow> c ! i = m ! (k - 1 - (i - Suc j)))"
      using 1 True by simp
    also have "\<dots> \<longleftrightarrow> (\<forall>i. j \<le> i \<and> i < length c \<longrightarrow> c ! i = m ! (k - (i - j)))"
    proof -
      have eq: "\<And>i. Suc j \<le> i \<Longrightarrow> k - 1 - (i - Suc j) = k - (i - j)" by arith
      show ?thesis
      proof (intro iffI allI impI)
        fix i assume h: "\<forall>i. Suc j \<le> i \<and> i < length c \<longrightarrow> c ! i = m ! (k - 1 - (i - Suc j))"
          and i: "j \<le> i \<and> i < length c"
        show "c ! i = m ! (k - (i - j))"
        proof (cases "i = j")
          case True
          with \<open>j < length c \<and> c ! j = m ! k\<close> show ?thesis by simp
        next
          case False
          with i have "Suc j \<le> i" by simp
          with h i eq show ?thesis by simp
        qed
      next
        fix i assume h: "\<forall>i. j \<le> i \<and> i < length c \<longrightarrow> c ! i = m ! (k - (i - j))"
          and i: "Suc j \<le> i \<and> i < length c"
        then have "c ! i = m ! (k - (i - j))" by simp
        with eq i show "c ! i = m ! (k - 1 - (i - Suc j))" by simp
      qed
    qed
    finally show ?thesis .
  next
    case False
    then show ?thesis
      by (subst opposite_sense.simps) auto
  qed
qed

text \<open>
  The body of the loop over \<open>adj_ent\<close> for one candidate, whose connectivity lookup gave
  \<open>r\<close> (\<open>None\<close> when \<open>get_connectivity\<close> fails): the value of \<open>match_found\<close> after it.
  Every \<open>continue\<close> of the source leaves \<open>match_found\<close> false.
\<close>

definition candidate_matches :: "connectivity \<Rightarrow> connectivity option \<Rightarrow> bool" where
  "candidate_matches connectivity r =
     (case r of
        None \<Rightarrow> False
      | Some match_conn \<Rightarrow>
          if length match_conn \<noteq> length connectivity then False
          else
            let iter = find_pos match_conn (connectivity ! 0) in
            if iter = length match_conn then False
            else
              let match_conn' = std_rotate iter match_conn;
                  they_match = same_sense connectivity match_conn' 1
              in if \<not> they_match
                 then opposite_sense connectivity match_conn' 1 (length connectivity - 1)
                 else they_match)"

text \<open>
  The test in the words of the specification. \<open>rotate_to v c\<close> rotates the candidate so
  that it starts at (the first occurrence of) \<open>v\<close>; \<open>reverse_traversal r\<close> walks the
  cycle \<open>r\<close> from the same first vertex in the other direction. A candidate \<open>c\<close> matches
  the query \<open>q\<close> when it has as many vertices, contains the query's first vertex and,
  rotated to it, equals the query read forwards or backwards.
\<close>

definition rotate_to :: "'a \<Rightarrow> 'a list \<Rightarrow> 'a list" where
  "rotate_to v c = std_rotate (find_pos c v) c"

definition reverse_traversal :: "'a list \<Rightarrow> 'a list" where
  "reverse_traversal r = (case r of [] \<Rightarrow> [] | x # xs \<Rightarrow> x # rev xs)"

definition spec_side_match :: "connectivity \<Rightarrow> connectivity \<Rightarrow> bool" where
  "spec_side_match q c \<longleftrightarrow>
     length c = length q \<and> hd q \<in> set c \<and>
     (q = rotate_to (hd q) c \<or> q = reverse_traversal (rotate_to (hd q) c))"

lemma find_pos_less: "x \<in> set xs \<Longrightarrow> find_pos xs x < length xs"
  unfolding find_pos_def
  by (induction xs) auto

lemma find_pos_eq_length: "find_pos xs x = length xs \<longleftrightarrow> x \<notin> set xs"
  unfolding find_pos_def
  by (induction xs) auto

lemma nth_find_pos: "x \<in> set xs \<Longrightarrow> xs ! find_pos xs x = x"
  unfolding find_pos_def
  by (induction xs) auto

lemma length_std_rotate [simp]: "length (std_rotate i xs) = length xs"
  by (simp add: std_rotate_def)

lemma std_rotate_nth0: "i < length xs \<Longrightarrow> std_rotate i xs ! 0 = xs ! i"
  by (simp add: std_rotate_def nth_append)

lemma list_eq_from_1:
  assumes "length q = length r" "q \<noteq> []" "q ! 0 = r ! 0"
  shows "(\<forall>i. 1 \<le> i \<and> i < length q \<longrightarrow> q ! i = r ! i) \<longleftrightarrow> q = r"
proof
  assume h: "\<forall>i. 1 \<le> i \<and> i < length q \<longrightarrow> q ! i = r ! i"
  show "q = r"
  proof (rule nth_equalityI)
    show "length q = length r" by (rule assms(1))
  next
    fix i assume "i < length q"
    then show "q ! i = r ! i"
      using h assms(3) by (cases i) auto
  qed
next
  assume "q = r" then show "\<forall>i. 1 \<le> i \<and> i < length q \<longrightarrow> q ! i = r ! i" by simp
qed

lemma reverse_traversal_nth:
  assumes "1 \<le> i" "i < length r"
  shows "reverse_traversal r ! i = r ! (length r - i)"
proof (cases r)
  case Nil
  with assms show ?thesis by simp
next
  case (Cons x xs)
  from assms obtain k where k: "i = Suc k" by (cases i) auto
  with assms Cons have kl: "k < length xs" by simp
  have "reverse_traversal r ! i = rev xs ! k"
    by (simp add: reverse_traversal_def Cons k)
  also have "\<dots> = xs ! (length xs - Suc k)"
    using kl by (simp add: rev_nth)
  also have "\<dots> = r ! (length r - i)"
    using kl by (simp add: Cons k Suc_diff_Suc)
  finally show ?thesis .
qed

lemma length_reverse_traversal [simp]: "length (reverse_traversal r) = length r"
  by (cases r) (simp_all add: reverse_traversal_def)

lemma reverse_traversal_nth0: "r \<noteq> [] \<Longrightarrow> reverse_traversal r ! 0 = r ! 0"
  by (cases r) (simp_all add: reverse_traversal_def)

lemma opposite_sense_eq:
  assumes len: "length q = length r" and ne: "q \<noteq> []" and h0: "q ! 0 = r ! 0"
  shows "opposite_sense q r 1 (length q - 1) \<longleftrightarrow> q = reverse_traversal r"
proof -
  have idx: "\<And>i. 1 \<le> i \<Longrightarrow> i < length q \<Longrightarrow> length q - 1 - (i - 1) = length r - i"
    using len by arith
  have "opposite_sense q r 1 (length q - 1) \<longleftrightarrow>
        (\<forall>i. 1 \<le> i \<and> i < length q \<longrightarrow> q ! i = r ! (length q - 1 - (i - 1)))"
    by (rule opposite_sense_iff)
  also have "\<dots> \<longleftrightarrow> (\<forall>i. 1 \<le> i \<and> i < length q \<longrightarrow> q ! i = reverse_traversal r ! i)"
    using idx len by (auto simp: reverse_traversal_nth)
  also have "\<dots> \<longleftrightarrow> q = reverse_traversal r"
  proof (rule list_eq_from_1)
    show "length q = length (reverse_traversal r)" using len by simp
    show "q \<noteq> []" by (rule ne)
    have "r \<noteq> []" using len ne by auto
    then show "q ! 0 = reverse_traversal r ! 0"
      using h0 by (simp add: reverse_traversal_nth0)
  qed
  finally show ?thesis .
qed

lemma candidate_matches_spec:
  assumes ne: "q \<noteq> []"
  shows "candidate_matches q (Some c) \<longleftrightarrow> spec_side_match q c"
proof (cases "length c = length q \<and> hd q \<in> set c")
  case False
  have "length c = length q \<Longrightarrow> find_pos c (q ! 0) = length c"
    using False ne find_pos_eq_length [of c "q ! 0"] by (auto simp: hd_conv_nth)
  then have "\<not> candidate_matches q (Some c)"
    by (auto simp: candidate_matches_def Let_def)
  moreover have "\<not> spec_side_match q c"
    using False by (auto simp: spec_side_match_def)
  ultimately show ?thesis by simp
next
  case True
  define r where "r = rotate_to (hd q) c"
  have q0: "q ! 0 = hd q" using ne by (simp add: hd_conv_nth)
  have mem: "hd q \<in> set c" and cq: "length c = length q"
    using True by simp_all
  have pos: "find_pos c (q ! 0) < length c"
    unfolding q0 by (rule find_pos_less [OF mem])
  have len: "length q = length r"
    using cq by (simp add: r_def rotate_to_def)
  have "r ! 0 = c ! find_pos c (hd q)"
    unfolding r_def rotate_to_def using pos q0 by (simp add: std_rotate_nth0)
  then have h0: "q ! 0 = r ! 0"
    using nth_find_pos [OF mem] q0 by simp
  have same: "same_sense q r 1 \<longleftrightarrow> q = r"
    using list_eq_from_1 [OF len ne h0] by (simp add: same_sense_iff)
  have opp: "opposite_sense q r 1 (length q - 1) \<longleftrightarrow> q = reverse_traversal r"
    by (rule opposite_sense_eq [OF len ne h0])
  have "candidate_matches q (Some c) \<longleftrightarrow>
        (same_sense q r 1 \<or> opposite_sense q r 1 (length q - 1))"
    using cq pos q0
    by (auto simp: candidate_matches_def Let_def r_def rotate_to_def)
  also have "\<dots> \<longleftrightarrow> spec_side_match q c"
    using True same opp by (simp add: spec_side_match_def r_def)
  finally show ?thesis .
qed

text \<open>
  The loop over \<open>adj_ent\<close>: it stops at the first candidate that sets \<open>match_found\<close> and
  returns it, or returns nothing.
\<close>

fun match_loop :: "'d mesh_db \<Rightarrow> connectivity \<Rightarrow> EntityHandle list \<Rightarrow> EntityHandle option" where
  "match_loop db connectivity [] = None"
| "match_loop db connectivity (a # adj_ent) =
     (if candidate_matches connectivity (get_connectivity db a) then Some a
      else match_loop db connectivity adj_ent)"

text \<open>
  \<open>create_sideset_element(connectivity, type, handle)\<close>: the handle it stores in
  \<open>handle\<close> and the database after the call. \<open>connectivity[0]\<close> of an empty vector is
  undefined.
\<close>

definition create_sideset_element ::
  "catalog \<Rightarrow> 'd mesh_db \<Rightarrow> connectivity \<Rightarrow> EntityType \<Rightarrow> (EntityHandle \<times> 'd mesh_db) outcome" where
  "create_sideset_element C db connectivity type =
     (if connectivity = [] then Undefined
      else
        let to_dim = Dimension C type;
            adj_ent = get_adjacencies C db (connectivity ! 0) to_dim
        in (case match_loop db connectivity adj_ent of
              Some h \<Rightarrow> Ok (h, db)
            | None \<Rightarrow> Ok (create_element db type connectivity)))"

text \<open>The specification's test for the candidate with handle \<open>a\<close>.\<close>

definition candidate_ok :: "'d mesh_db \<Rightarrow> connectivity \<Rightarrow> EntityHandle \<Rightarrow> bool" where
  "candidate_ok db q a =
     (case get_connectivity db a of None \<Rightarrow> False | Some c \<Rightarrow> spec_side_match q c)"

lemma candidate_matches_ok:
  assumes "q \<noteq> []"
  shows "candidate_matches q (get_connectivity db a) = candidate_ok db q a"
proof (cases "get_connectivity db a")
  case None
  then show ?thesis by (simp add: candidate_ok_def candidate_matches_def)
next
  case (Some c)
  then show ?thesis by (simp add: candidate_ok_def candidate_matches_spec [OF assms])
qed

lemma match_loop_find:
  "q \<noteq> [] \<Longrightarrow> match_loop db q adj = find (candidate_ok db q) adj"
  by (induction adj) (simp_all add: candidate_matches_ok)

text \<open>
  C8. For a non-empty query, \<open>create_sideset_element\<close> returns the first adjacent
  candidate of the target dimension that has the same number of vertices and, rotated
  to the query's first vertex, equals the query or the query traversed in reverse, and
  leaves the database unchanged; when there is no such candidate it creates a new
  entity with the query connectivity.
\<close>

theorem create_sideset_element_reuses_first_match:
  assumes "connectivity \<noteq> []"
  shows "create_sideset_element C db connectivity type =
     (case find (candidate_ok db connectivity)
             (get_adjacencies C db (hd connectivity) (Dimension C type)) of
        Some a \<Rightarrow> Ok (a, db)
      | None \<Rightarrow> Ok (create_element db type connectivity))"
  using assms
  by (simp add: create_sideset_element_def Let_def match_loop_find hd_conv_nth)

text \<open>A database with the single quadrilateral 50 on the vertices 1, 2, 3, 4.\<close>

definition quad_db :: "int mesh_db" where
  "quad_db = \<lparr> db_next = 51, db_ents = [(50, MBQUAD, [1, 2, 3, 4])],
     db_sets = Map.empty, db_tags = (\<lambda>t. Map.empty), db_tag_default = (\<lambda>t. None),
     db_dist_factor = Map.empty \<rparr>"

text \<open>
  The query \<open>[3, 2, 1, 4]\<close> is quadrilateral 50 traversed in reverse from vertex 3 and is
  reused; \<open>[3, 1, 2, 4]\<close> is not a rotation or reversal of it and is created as 51.
\<close>

theorem create_sideset_element_reuses_first_match_witness:
  "[3, 2, 1, 4] \<noteq> ([] :: connectivity) \<and>
   create_sideset_element moab_catalog quad_db [3, 2, 1, 4] MBQUAD = Ok (50, quad_db) \<and>
   create_sideset_element moab_catalog quad_db [3, 1, 2, 4] MBQUAD =
     Ok (51, quad_db\<lparr> db_next := 52,
               db_ents := [(50, MBQUAD, [1, 2, 3, 4]), (51, MBQUAD, [3, 1, 2, 4])] \<rparr>)"
proof -
  have ne1: "[3, 2, 1, 4] \<noteq> ([] :: connectivity)" and ne2: "[3, 1, 2, 4] \<noteq> ([] :: connectivity)"
    by simp_all
  have reuse: "create_sideset_element moab_catalog quad_db [3, 2, 1, 4] MBQUAD = Ok (50, quad_db)"
    by (subst create_sideset_element_reuses_first_match [OF ne1])
       (simp add: quad_db_def moab_catalog_def get_adjacencies_def candidate_ok_def
          get_connectivity_def spec_side_match_def rotate_to_def std_rotate_def find_pos_def
          reverse_traversal_def)
  have fresh: "create_sideset_element moab_catalog quad_db [3, 1, 2, 4] MBQUAD =
     Ok (51, quad_db\<lparr> db_next := 52,
               db_ents := [(50, MBQUAD, [1, 2, 3, 4]), (51, MBQUAD, [3, 1, 2, 4])] \<rparr>)"
    by (subst create_sideset_element_reuses_first_match [OF ne2])
       (simp add: quad_db_def moab_catalog_def get_adjacencies_def candidate_ok_def
          get_connectivity_def spec_side_match_def rotate_to_def std_rotate_def find_pos_def
          reverse_traversal_def create_element_def)
  from ne1 reuse fresh show ?thesis by blast
qed

section \<open>Meshsets and tags of the mesh database\<close>

text \<open>
  Modelled from the spec: the meshset and tag calls of the mesh database, whose code is
  not in ReadNCDF.cpp. \<open>tag_get_data\<close> of an integer tag reads the value set on the
  entity, else the tag's default, else fails with \<open>MB_TAG_NOT_FOUND\<close>; the \<open>distFactor\<close>
  tag has variable length and no default. \<open>create_meshset\<close> takes the next handle; its
  flag says whether the set is ordered (\<open>MESHSET_ORDERED\<close>) or a sorted set without
  duplicates (\<open>MESHSET_SET\<close>). \<open>add_entities\<close> appends to an ordered set and inserts into
  an unordered one.
\<close>

definition tag_get_data :: "'d mesh_db \<Rightarrow> Tag \<Rightarrow> EntityHandle \<Rightarrow> int outcome" where
  "tag_get_data db tag h =
     (case db_tags db tag h of
        Some v \<Rightarrow> Ok v
      | None \<Rightarrow> (case db_tag_default db tag of Some d \<Rightarrow> Ok d | None \<Rightarrow> Err MB_TAG_NOT_FOUND))"

definition tag_set_data :: "'d mesh_db \<Rightarrow> Tag \<Rightarrow> EntityHandle \<Rightarrow> int \<Rightarrow> 'd mesh_db" where
  "tag_set_data db tag h v = db\<lparr> db_tags := (db_tags db)(tag := (db_tags db tag)(h \<mapsto> v)) \<rparr>"

definition get_dist_factor :: "'d mesh_db \<Rightarrow> EntityHandle \<Rightarrow> 'd list outcome" where
  "get_dist_factor db h =
     (case db_dist_factor db h of Some v \<Rightarrow> Ok v | None \<Rightarrow> Err MB_TAG_NOT_FOUND)"

definition set_dist_factor :: "'d mesh_db \<Rightarrow> EntityHandle \<Rightarrow> 'd list \<Rightarrow> 'd mesh_db" where
  "set_dist_factor db h v = db\<lparr> db_dist_factor := (db_dist_factor db)(h \<mapsto> v) \<rparr>"

definition create_meshset :: "'d mesh_db \<Rightarrow> bool \<Rightarrow> EntityHandle \<times> 'd mesh_db" where
  "create_meshset db ordered =
     (db_next db,
      db\<lparr> db_next := Suc (db_next db), db_sets := (db_sets db)(db_next db \<mapsto> (ordered, [])) \<rparr>)"

definition add_entities :: "'d mesh_db \<Rightarrow> EntityHandle \<Rightarrow> EntityHandle list \<Rightarrow> 'd mesh_db outcome" where
  "add_entities db h ents =
     (case db_sets db h of
        None \<Rightarrow> Err MB_ENTITY_NOT_FOUND
      | Some (ordered, ms) \<Rightarrow>
          Ok (db\<lparr> db_sets := (db_sets db)(h \<mapsto>
                (ordered, if ordered then ms @ ents else sort (remdups (ms @ ents)))) \<rparr>))"

text \<open>
  Modelled from the spec: the contents of a meshset, as the mesh database returns
  them. The source passes \<open>recursive = true\<close>; the sets it reads
  this way are node sets, which hold vertices and no meshsets, so the direct contents
  are the result.
\<close>

definition get_entities_by_handle :: "'d mesh_db \<Rightarrow> EntityHandle \<Rightarrow> EntityHandle list outcome" where
  "get_entities_by_handle db h =
     (case db_sets db h of None \<Rightarrow> Err MB_ENTITY_NOT_FOUND | Some (ordered, ms) \<Rightarrow> Ok ms)"

text \<open>
  The loop of \<open>read_nodesets\<close> and \<open>read_sidesets\<close> over \<open>child_meshsets\<close>: the first
  entity whose tag value is the wanted id, or handle 0. An entity whose tag cannot be
  read is skipped.
\<close>

fun find_set_by_tag :: "'d mesh_db \<Rightarrow> Tag \<Rightarrow> int \<Rightarrow> EntityHandle list \<Rightarrow> EntityHandle" where
  "find_set_by_tag db tag id0 [] = 0"
| "find_set_by_tag db tag id0 (iter # rest) =
     (case tag_get_data db tag iter of
        Ok set_id \<Rightarrow> if id0 = set_id then iter else find_set_by_tag db tag id0 rest
      | _ \<Rightarrow> find_set_by_tag db tag id0 rest)"

section \<open>read\_nodesets\<close>

text \<open>
  \<open>NcVar::get\<close> of the first \<open>n\<close> values of a one-dimensional variable: the enclosing
  function returns \<open>MB_FAILURE\<close> when the variable is missing or invalid (\<open>None\<close>) or
  holds fewer values.
\<close>

definition nc_get :: "'a list option \<Rightarrow> nat \<Rightarrow> 'a list outcome" where
  "nc_get var n =
     (case var of
        None \<Rightarrow> Err MB_FAILURE
      | Some vs \<Rightarrow> if length vs < n then Err MB_FAILURE else Ok (take n vs))"

text \<open>
  The dimensions and variables of node set number \<open>i\<close>: \<open>num_nod_ns<i>\<close>,
  \<open>num_df_ns<i>\<close>, \<open>dist_fact_ns<i>\<close> and \<open>node_ns<i>\<close>.
\<close>

record 'd nodeset_vars =
  num_nod_ns :: dim_lookup
  num_df_ns :: dim_lookup
  dist_fact_ns :: "'d list option"
  node_ns :: "int list option"

text \<open>
  \<open>unsigned int node_id = CREATE_HANDLE(MBVERTEX, node_handles[j] + vertexOffset, temp)\<close>:
  the handle, cut to 32 bits by the type of \<open>node_id\<close>.
\<close>

definition node_id_of :: "catalog \<Rightarrow> int \<Rightarrow> int \<Rightarrow> EntityHandle" where
  "node_id_of C vertexOffset node_handle =
     CREATE_HANDLE C MBVERTEX (node_handle + vertexOffset) mod 2 ^ 32"

text \<open>
  The loop over the nodes of one set, on the pairs \<open>(node_handles[j],
  temp_dist_factor_vector[j])\<close>. \<open>nodesInLoadedBlocks[node_handles[j]]\<close> is read without a
  bounds check, so an index outside the vector is undefined. \<open>ns_handle\<close> is 0 when no
  existing set was found.
\<close>

fun nodeset_loop ::
  "catalog \<Rightarrow> bool list \<Rightarrow> int \<Rightarrow> EntityHandle \<Rightarrow> EntityHandle list \<Rightarrow> int
     \<Rightarrow> (int \<times> 'd) list \<Rightarrow> EntityHandle list \<Rightarrow> 'd list
     \<Rightarrow> (EntityHandle list \<times> 'd list) outcome" where
  "nodeset_loop C nodesInLoadedBlocks vertexOffset ns_handle nodes_of_nodeset
       number_dist_factors_in_set [] nodes dist_factor_vector = Ok (nodes, dist_factor_vector)"
| "nodeset_loop C nodesInLoadedBlocks vertexOffset ns_handle nodes_of_nodeset
       number_dist_factors_in_set ((node_handle, df) # rest) nodes dist_factor_vector =
     (if node_handle < 0 \<or> nat node_handle \<ge> length nodesInLoadedBlocks then Undefined
      else if nodesInLoadedBlocks ! nat node_handle then
        (let node_id = node_id_of C vertexOffset node_handle in
         if ns_handle = 0 \<or> node_id \<notin> set nodes_of_nodeset
         then nodeset_loop C nodesInLoadedBlocks vertexOffset ns_handle nodes_of_nodeset
                number_dist_factors_in_set rest (nodes @ [node_id])
                (if number_dist_factors_in_set \<noteq> 0 then dist_factor_vector @ [df]
                 else dist_factor_vector)
         else nodeset_loop C nodesInLoadedBlocks vertexOffset ns_handle nodes_of_nodeset
                number_dist_factors_in_set rest nodes dist_factor_vector)
      else nodeset_loop C nodesInLoadedBlocks vertexOffset ns_handle nodes_of_nodeset
             number_dist_factors_in_set rest nodes dist_factor_vector)"

text \<open>
  \<open>temp_dist_factor_vector\<close>: \<open>number_nodes_in_set\<close> zeros, over which the first
  \<open>number_dist_factors_in_set\<close> values of \<open>dist_fact_ns<i>\<close> are read when that number
  is not zero. Reading more values than the vector holds writes past its end.
\<close>

definition read_dist_fact_ns :: "'d::zero nodeset_vars \<Rightarrow> nat \<Rightarrow> int \<Rightarrow> 'd list outcome" where
  "read_dist_fact_ns f number_nodes_in_set number_dist_factors_in_set =
     (if number_dist_factors_in_set \<noteq> 0 then
        (case nc_get (dist_fact_ns f) (nat number_dist_factors_in_set) of
           Err e \<Rightarrow> Err e
         | Undefined \<Rightarrow> Undefined
         | Ok vs \<Rightarrow>
             if nat number_dist_factors_in_set > number_nodes_in_set then Undefined
             else Ok (vs @ replicate (number_nodes_in_set - nat number_dist_factors_in_set) 0))
      else Ok (replicate number_nodes_in_set 0))"

text \<open>
  The branch "append dist factors to vector" of \<open>read_nodesets\<close>, for an existing set
  and a non-empty \<open>dist_factor_vector\<close>: the factors already on the set are copied
  behind the new ones with \<open>std::back_inserter\<close>, and the result is stored on the set.
\<close>

definition append_nodeset_dist_factors ::
  "'d mesh_db \<Rightarrow> EntityHandle \<Rightarrow> 'd list \<Rightarrow> 'd mesh_db outcome" where
  "append_nodeset_dist_factors db ns_handle dist_factor_vector =
     (case get_dist_factor db ns_handle of
        Ok data \<Rightarrow> Ok (set_dist_factor db ns_handle (dist_factor_vector @ data))
      | _ \<Rightarrow> Err MB_FAILURE)"

text \<open>
  The end of the loop body: the set is created and tagged when none was found, or its
  distribution factors are extended; then the nodes are added. Nothing happens for an
  empty \<open>nodes\<close>.
\<close>

definition nodeset_target ::
  "'d mesh_db \<Rightarrow> int \<Rightarrow> EntityHandle \<Rightarrow> 'd list \<Rightarrow> (EntityHandle \<times> 'd mesh_db) outcome" where
  "nodeset_target db nodeset_id ns_handle dist_factor_vector =
     (if ns_handle = 0 then
        (case create_meshset db True of
           (ns_handle', db1) \<Rightarrow>
             let db2 = tag_set_data db1 DirichletSetTag ns_handle' nodeset_id;
                 db3 = tag_set_data db2 GlobalIdTag ns_handle' nodeset_id
             in Ok (ns_handle',
                    if dist_factor_vector \<noteq> []
                    then set_dist_factor db3 ns_handle' dist_factor_vector else db3))
      else if dist_factor_vector \<noteq> [] then
        (case append_nodeset_dist_factors db ns_handle dist_factor_vector of
           Ok db1 \<Rightarrow> Ok (ns_handle, db1) | Err e \<Rightarrow> Err e | Undefined \<Rightarrow> Undefined)
      else Ok (ns_handle, db))"

definition nodeset_commit ::
  "'d mesh_db \<Rightarrow> int \<Rightarrow> EntityHandle \<Rightarrow> EntityHandle list \<Rightarrow> 'd list \<Rightarrow> 'd mesh_db outcome" where
  "nodeset_commit db nodeset_id ns_handle nodes dist_factor_vector =
     (if nodes = [] then Ok db
      else
        (case nodeset_target db nodeset_id ns_handle dist_factor_vector of
           Err e \<Rightarrow> Err e
         | Undefined \<Rightarrow> Undefined
         | Ok (ns_handle', db') \<Rightarrow>
             (case add_entities db' ns_handle' nodes of
                Ok db'' \<Rightarrow> Ok db'' | _ \<Rightarrow> Err MB_FAILURE)))"

text \<open>
  The body of the loop of \<open>read_nodesets\<close> for the set with id \<open>nodeset_id\<close>.
  \<open>child_meshsets\<close> is what the database holds beyond \<open>initRange\<close> at that moment.
\<close>

definition read_nodeset ::
  "catalog \<Rightarrow> bool list \<Rightarrow> int \<Rightarrow> EntityHandle list \<Rightarrow> int \<Rightarrow> 'd::zero nodeset_vars
     \<Rightarrow> 'd mesh_db \<Rightarrow> 'd mesh_db outcome" where
  "read_nodeset C nodesInLoadedBlocks vertexOffset child_meshsets nodeset_id f db =
     (case GET_DIMB (num_nod_ns f) of Err e \<Rightarrow> Err e | Undefined \<Rightarrow> Undefined
      | Ok number_nodes_in_set \<Rightarrow>
     (case GET_DIMB (num_df_ns f) of Err e \<Rightarrow> Err e | Undefined \<Rightarrow> Undefined
      | Ok number_dist_factors_in_set \<Rightarrow>
     (case read_dist_fact_ns f (nat number_nodes_in_set) number_dist_factors_in_set of
        Err e \<Rightarrow> Err e | Undefined \<Rightarrow> Undefined
      | Ok temp_dist_factor_vector \<Rightarrow>
     (case nc_get (node_ns f) (nat number_nodes_in_set) of
        Err e \<Rightarrow> Err e | Undefined \<Rightarrow> Undefined
      | Ok node_handles \<Rightarrow>
     (let ns_handle = find_set_by_tag db DirichletSetTag nodeset_id child_meshsets in
      case (if ns_handle \<noteq> 0 then get_entities_by_handle db ns_handle else Ok []) of
        Undefined \<Rightarrow> Undefined
      | Err e \<Rightarrow> Err MB_FAILURE
      | Ok nodes_of_nodeset \<Rightarrow>
     (case nodeset_loop C nodesInLoadedBlocks vertexOffset ns_handle nodes_of_nodeset
             number_dist_factors_in_set (zip node_handles temp_dist_factor_vector) [] [] of
        Err e \<Rightarrow> Err e | Undefined \<Rightarrow> Undefined
      | Ok (nodes, dist_factor_vector) \<Rightarrow>
          nodeset_commit db nodeset_id ns_handle nodes dist_factor_vector))))))"

text \<open>
  \<open>read_nodesets\<close>: the ids from \<open>ns_prop1\<close>, then one pass per set. \<open>post_init\<close> stands
  for the query "all entities minus \<open>initRange\<close>", made anew before each set.
\<close>

fun read_nodesets_loop ::
  "catalog \<Rightarrow> bool list \<Rightarrow> int \<Rightarrow> ('d mesh_db \<Rightarrow> EntityHandle list)
     \<Rightarrow> (int \<times> 'd::zero nodeset_vars) list \<Rightarrow> 'd mesh_db \<Rightarrow> 'd mesh_db outcome" where
  "read_nodesets_loop C nodesInLoadedBlocks vertexOffset post_init [] db = Ok db"
| "read_nodesets_loop C nodesInLoadedBlocks vertexOffset post_init ((nodeset_id, f) # fs) db =
     (case read_nodeset C nodesInLoadedBlocks vertexOffset (post_init db) nodeset_id f db of
        Err e \<Rightarrow> Err e
      | Undefined \<Rightarrow> Undefined
      | Ok db' \<Rightarrow> read_nodesets_loop C nodesInLoadedBlocks vertexOffset post_init fs db')"

record 'd nodesets_file =
  ns_prop1 :: "int list option"
  ns_vars :: "nat \<Rightarrow> 'd nodeset_vars"

definition read_nodesets ::
  "catalog \<Rightarrow> bool list \<Rightarrow> int \<Rightarrow> ('d mesh_db \<Rightarrow> EntityHandle list) \<Rightarrow> nat
     \<Rightarrow> 'd::zero nodesets_file \<Rightarrow> 'd mesh_db \<Rightarrow> 'd mesh_db outcome" where
  "read_nodesets C nodesInLoadedBlocks vertexOffset post_init numberNodeSets_loading f db =
     (if numberNodeSets_loading = 0 then Ok db
      else
        (case nc_get (ns_prop1 f) numberNodeSets_loading of
           Err e \<Rightarrow> Err e
         | Undefined \<Rightarrow> Undefined
         | Ok id_array \<Rightarrow>
             read_nodesets_loop C nodesInLoadedBlocks vertexOffset post_init
               (zip id_array (map (\<lambda>i. ns_vars f (Suc i)) [0..<numberNodeSets_loading])) db))"

text \<open>
  The handles of the nodes touched by a selected block (\<open>nodesInLoadedBlocks[j]\<close> set),
  and the contents of a meshset as a set (empty for a handle that is no meshset).
\<close>

definition touched_handles :: "catalog \<Rightarrow> bool list \<Rightarrow> int \<Rightarrow> EntityHandle set" where
  "touched_handles C nodesInLoadedBlocks vertexOffset =
     {node_id_of C vertexOffset (int j) | j. j < length nodesInLoadedBlocks \<and> nodesInLoadedBlocks ! j}"

definition set_contents :: "'d mesh_db \<Rightarrow> EntityHandle \<Rightarrow> EntityHandle set" where
  "set_contents db h = (case db_sets db h of None \<Rightarrow> {} | Some (ordered, ms) \<Rightarrow> set ms)"

lemma nodeset_loop_touched:
  "nodeset_loop C touched vo h ex ndf zs nodes dfv = Ok (nodes', dfv') \<Longrightarrow>
   set nodes \<subseteq> touched_handles C touched vo \<Longrightarrow>
   set nodes' \<subseteq> touched_handles C touched vo"
proof (induction zs arbitrary: nodes dfv)
  case Nil
  then show ?case by simp
next
  case (Cons z zs)
  obtain nh df where z: "z = (nh, df)" by (cases z)
  from Cons.prems(1) have inr: "0 \<le> nh" "nat nh < length touched"
    by (auto simp: z split: if_splits)
  show ?case
  proof (cases "touched ! nat nh \<and> (h = 0 \<or> node_id_of C vo nh \<notin> set ex)")
    case True
    then have step: "nodeset_loop C touched vo h ex ndf zs (nodes @ [node_id_of C vo nh])
        (if ndf \<noteq> 0 then dfv @ [df] else dfv) = Ok (nodes', dfv')"
      using Cons.prems(1) inr by (auto simp: z Let_def split: if_splits)
    have "node_id_of C vo nh \<in> touched_handles C touched vo"
      unfolding touched_handles_def using True inr
      by (auto intro!: exI [of _ "nat nh"])
    with Cons.prems(2) have "set (nodes @ [node_id_of C vo nh]) \<subseteq> touched_handles C touched vo"
      by simp
    from Cons.IH [OF step this] show ?thesis .
  next
    case False
    then have step: "nodeset_loop C touched vo h ex ndf zs nodes dfv = Ok (nodes', dfv')"
      using Cons.prems(1) inr by (auto simp: z Let_def split: if_splits)
    from Cons.IH [OF step Cons.prems(2)] show ?thesis .
  qed
qed

lemma set_contents_add_entities:
  "add_entities db h ents = Ok db' \<Longrightarrow>
   set_contents db' k = (if k = h then set_contents db h \<union> set ents else set_contents db k)"
  by (auto simp: add_entities_def set_contents_def split: option.splits if_splits)

lemma set_contents_tag_set_data [simp]:
  "set_contents (tag_set_data db tag h v) k = set_contents db k"
  by (simp add: set_contents_def tag_set_data_def)

lemma set_contents_set_dist_factor [simp]:
  "set_contents (set_dist_factor db h v) k = set_contents db k"
  by (simp add: set_contents_def set_dist_factor_def)

lemma set_contents_create_meshset:
  "create_meshset db ordered = (h, db') \<Longrightarrow> set_contents db' k \<subseteq> set_contents db k"
  by (auto simp: create_meshset_def set_contents_def split: option.splits if_splits)

lemma set_contents_append_nodeset_dist_factors:
  "append_nodeset_dist_factors db h v = Ok db' \<Longrightarrow> set_contents db' k = set_contents db k"
  by (auto simp: append_nodeset_dist_factors_def split: outcome.splits)

lemma nodeset_target_contents:
  assumes "nodeset_target db nid h dfv = Ok (h', db')"
  shows "set_contents db' k \<subseteq> set_contents db k"
proof (cases "h = 0")
  case True
  obtain h1 db1 where cm: "create_meshset db True = (h1, db1)"
    by (cases "create_meshset db True")
  from assms True cm have "set_contents db' k = set_contents db1 k"
    by (auto simp: nodeset_target_def Let_def split: if_splits)
  with set_contents_create_meshset [OF cm, of k] show ?thesis by simp
next
  case False
  with assms show ?thesis
    by (auto simp: nodeset_target_def dest: set_contents_append_nodeset_dist_factors
          split: if_splits outcome.splits)
qed

lemma nodeset_commit_contents:
  assumes "nodeset_commit db nid h nodes dfv = Ok db'"
  shows "set_contents db' k \<subseteq> set_contents db k \<union> set nodes"
proof (cases "nodes = []")
  case True
  with assms show ?thesis by (simp add: nodeset_commit_def)
next
  case False
  from assms False obtain h1 db1 where
    tgt: "nodeset_target db nid h dfv = Ok (h1, db1)" and
    add: "add_entities db1 h1 nodes = Ok db'"
    by (auto simp: nodeset_commit_def split: outcome.splits)
  from set_contents_add_entities [OF add, of k] nodeset_target_contents [OF tgt, of k]
  show ?thesis by (auto split: if_splits)
qed

lemma read_nodeset_contents:
  assumes "read_nodeset C touched vo child nid f db = Ok db'"
  shows "set_contents db' k \<subseteq> set_contents db k \<union> touched_handles C touched vo"
proof -
  from assms obtain h ex ndf zs nodes dfv where
    loop: "nodeset_loop C touched vo h ex ndf zs [] [] = Ok (nodes, dfv)" and
    commit: "nodeset_commit db nid h nodes dfv = Ok db'"
    by (auto simp: read_nodeset_def Let_def split: outcome.splits)
  from nodeset_loop_touched [OF loop] have "set nodes \<subseteq> touched_handles C touched vo"
    by simp
  with nodeset_commit_contents [OF commit, of k] show ?thesis by blast
qed

lemma read_nodesets_loop_contents:
  "read_nodesets_loop C touched vo post_init fs db = Ok db' \<Longrightarrow>
   set_contents db' k \<subseteq> set_contents db k \<union> touched_handles C touched vo"
proof (induction fs arbitrary: db)
  case Nil
  then show ?case by simp
next
  case (Cons p fs)
  obtain nid f where p: "p = (nid, f)" by (cases p)
  from Cons.prems obtain db1 where
    one: "read_nodeset C touched vo (post_init db) nid f db = Ok db1" and
    rest: "read_nodesets_loop C touched vo post_init fs db1 = Ok db'"
    by (auto simp: p split: outcome.splits)
  from Cons.IH [OF rest] read_nodeset_contents [OF one, of k] show ?case by blast
qed

text \<open>
  C9. Whatever \<open>read_nodesets\<close> puts into a meshset is the handle of a node \<open>j\<close> with
  \<open>nodesInLoadedBlocks[j]\<close> set: after a successful call, every member of every meshset
  was a member before the call or is such a handle.
\<close>

theorem read_nodesets_members_touched:
  assumes "read_nodesets C nodesInLoadedBlocks vertexOffset post_init n f db = Ok db'"
  shows "set_contents db' k \<subseteq>
           set_contents db k \<union> touched_handles C nodesInLoadedBlocks vertexOffset"
proof (cases "n = 0")
  case True
  with assms show ?thesis by (simp add: read_nodesets_def)
next
  case False
  with assms obtain zs where
    "read_nodesets_loop C nodesInLoadedBlocks vertexOffset post_init zs db = Ok db'"
    by (auto simp: read_nodesets_def split: outcome.splits)
  then show ?thesis by (rule read_nodesets_loop_contents)
qed

text \<open>
  An empty database whose next handle is 200, and a file with the one node set 5 on the
  nodes 1, 3, 2 with factors 7, 8, 9. With nodes 1 and 2 touched and vertex offset 100,
  the set 200 is created with the vertices 101 and 102 and the factors 7 and 9.
\<close>

definition empty_db :: "int mesh_db" where
  "empty_db = \<lparr> db_next = 200, db_ents = [], db_sets = Map.empty,
     db_tags = (\<lambda>t. Map.empty), db_tag_default = (\<lambda>t. Some 0), db_dist_factor = Map.empty \<rparr>"

definition one_nodeset_file :: "int nodesets_file" where
  "one_nodeset_file = \<lparr> ns_prop1 = Some [5],
     ns_vars = (\<lambda>i. \<lparr> num_nod_ns = Dim_size 3, num_df_ns = Dim_size 3,
                        dist_fact_ns = Some [7, 8, 9], node_ns = Some [1, 3, 2] \<rparr>) \<rparr>"

definition one_nodeset_db :: "int mesh_db" where
  "one_nodeset_db = \<lparr> db_next = 201, db_ents = [], db_sets = [200 \<mapsto> (True, [101, 102])],
     db_tags = (\<lambda>t. Map.empty)(DirichletSetTag := [200 \<mapsto> 5], GlobalIdTag := [200 \<mapsto> 5]),
     db_tag_default = (\<lambda>t. Some 0), db_dist_factor = [200 \<mapsto> [7, 9]] \<rparr>"

lemma read_one_nodeset:
  "read_nodesets moab_catalog [False, True, True, False, False] 100 (\<lambda>db. []) 1
     one_nodeset_file empty_db = Ok one_nodeset_db"
  by (simp add: read_nodesets_def one_nodeset_file_def empty_db_def one_nodeset_db_def
        nc_get_def read_nodeset_def GET_DIMB_def dimension_exists_def read_dist_fact_ns_def node_id_of_def
        moab_catalog_def nodeset_commit_def nodeset_target_def create_meshset_def
        tag_set_data_def set_dist_factor_def add_entities_def fun_upd_twist)

theorem read_nodesets_members_touched_witness:
  "read_nodesets moab_catalog [False, True, True, False, False] 100 (\<lambda>db. []) 1
     one_nodeset_file empty_db = Ok one_nodeset_db \<and>
   set_contents one_nodeset_db 200 = {101, 102} \<and>
   {101, 102} \<subseteq> set_contents empty_db 200 \<union>
      touched_handles moab_catalog [False, True, True, False, False] 100"
  using read_nodesets_members_touched [OF read_one_nodeset, of 200] read_one_nodeset
  by (simp add: set_contents_def one_nodeset_db_def)

section \<open>find\_side\_element\_type\<close>

text \<open>
  The chain of tests "offset df\_index according to type" for a block that is not read:
  the amount added to \<open>df_index\<close>. No branch applies to a type outside the five ranges.
\<close>

definition unselected_advance :: "exo_enum \<Rightarrow> ExoIIElementType \<Rightarrow> int \<Rightarrow> int" where
  "unselected_advance E elem_type side_id =
     (if EXOII_HEX E \<le> elem_type \<and> elem_type \<le> EXOII_HEX27 E then 4
      else if EXOII_TETRA E \<le> elem_type \<and> elem_type \<le> EXOII_TETRA14 E then 3
      else if EXOII_QUAD E \<le> elem_type \<and> elem_type \<le> EXOII_QUAD9 E then 2
      else if EXOII_SHELL E \<le> elem_type \<and> elem_type \<le> EXOII_SHELL9 E then
        (if side_id = 1 \<or> side_id = 2 then 4 else 2)
      else if EXOII_TRI E \<le> elem_type \<and> elem_type \<le> EXOII_TRI7 E then 3
      else 0)"

text \<open>
  The loop over \<open>blocksLoading\<close>. The reference parameters \<open>elem_type\<close>, \<open>block_data\<close>
  and \<open>df_index\<close> are returned with the error code: the first block whose id range
  holds \<open>exodus_id\<close> decides; when it is not read the function returns \<open>MB_FAILURE\<close>
  with the advanced \<open>df_index\<close> and \<open>block_data\<close> untouched.
\<close>

fun find_side_loop ::
  "exo_enum \<Rightarrow> ReadBlockData list \<Rightarrow> int \<Rightarrow> ExoIIElementType \<Rightarrow> ReadBlockData \<Rightarrow> int \<Rightarrow> int
     \<Rightarrow> ErrorCode \<times> ExoIIElementType \<times> ReadBlockData \<times> int" where
  "find_side_loop E [] exodus_id elem_type block_data df_index side_id =
     (MB_FAILURE, elem_type, block_data, df_index)"
| "find_side_loop E (iter # rest) exodus_id elem_type block_data df_index side_id =
     (if exodus_id \<ge> startExoId iter \<and> exodus_id < startExoId iter + numElements iter then
        (if \<not> reading_in iter then
           (MB_FAILURE, elemType iter, block_data,
            df_index + unselected_advance E (elemType iter) side_id)
         else (MB_SUCCESS, elemType iter, iter, df_index))
      else find_side_loop E rest exodus_id elem_type block_data df_index side_id)"

definition find_side_element_type ::
  "exo_enum \<Rightarrow> ReadBlockData list \<Rightarrow> int \<Rightarrow> ReadBlockData \<Rightarrow> int \<Rightarrow> int
     \<Rightarrow> ErrorCode \<times> ExoIIElementType \<times> ReadBlockData \<times> int" where
  "find_side_element_type E blocksLoading exodus_id block_data df_index side_id =
     find_side_loop E blocksLoading exodus_id (EXOII_MAX_ELEM_TYPE E) block_data df_index side_id"

section \<open>create\_ss\_elements\<close>

text \<open>
  What the loop of \<open>create_ss_elements\<close> changes: the database (sides are created in
  it), the three output vectors and the cursor \<open>df_index\<close>.
\<close>

record 'd ss_state =
  st_db :: "'d mesh_db"
  st_entities_to_add :: "EntityHandle list"
  st_reverse_entities :: "EntityHandle list"
  st_dist_factor_vector :: "'d list"
  st_df_index :: int

text \<open>
  \<open>for (k = 0; k < n; k++) dist_factor_vector.push_back(temp_dist_factor_vector[df_index++])\<close>,
  which the source runs under \<open>if (num_dist_factors)\<close>. Reading past the end of
  \<open>temp_dist_factor_vector\<close> is undefined.
\<close>

fun push_factors :: "nat \<Rightarrow> 'd list \<Rightarrow> 'd list \<Rightarrow> int \<Rightarrow> ('d list \<times> int) outcome" where
  "push_factors 0 temp dfv idx = Ok (dfv, idx)"
| "push_factors (Suc k) temp dfv idx =
     (if idx < 0 \<or> nat idx \<ge> length temp then Undefined
      else push_factors k temp (dfv @ [temp ! nat idx]) (idx + 1))"

definition read_factors :: "int \<Rightarrow> nat \<Rightarrow> 'd list \<Rightarrow> 'd ss_state \<Rightarrow> 'd ss_state outcome" where
  "read_factors num_dist_factors k temp st =
     (if num_dist_factors \<noteq> 0 then
        (case push_factors k temp (st_dist_factor_vector st) (st_df_index st) of
           Ok (dfv, idx) \<Rightarrow> Ok (st\<lparr> st_dist_factor_vector := dfv, st_df_index := idx \<rparr>)
         | Err e \<Rightarrow> Err e
         | Undefined \<Rightarrow> Undefined)
      else Ok st)"

text \<open>\<open>connectivity[k] = nodes[side_node_idx[k]]\<close> for every \<open>k\<close>.\<close>

definition gather :: "connectivity \<Rightarrow> nat list \<Rightarrow> connectivity outcome" where
  "gather nodes side_node_idx =
     (if list_all (\<lambda>i. i < length nodes) side_node_idx
      then Ok (map (\<lambda>i. nodes ! i) side_node_idx) else Undefined)"

text \<open>
  The code shared by the branches that build a side from the parent's nodes: the
  connectivity of the parent, the node indices of sub-entity \<open>side_index\<close> of dimension
  \<open>side_dim\<close>, \<open>create_sideset_element\<close>, and \<open>k\<close> distribution factors.
\<close>

definition make_side ::
  "catalog \<Rightarrow> EntityType \<Rightarrow> EntityHandle \<Rightarrow> nat \<Rightarrow> int \<Rightarrow> int \<Rightarrow> nat \<Rightarrow> 'd list \<Rightarrow> 'd ss_state
     \<Rightarrow> 'd ss_state outcome" where
  "make_side C type ent_handle side_dim side_index num_dist_factors k temp st =
     (case get_connectivity (st_db st) ent_handle of
        None \<Rightarrow> Err MB_FAILURE
      | Some nodes \<Rightarrow>
          (case SubEntityNodeIndices C type (length nodes) side_dim side_index of
             (subtype, side_node_idx) \<Rightarrow>
               if side_node_idx = [] then Err MB_FAILURE
               else
                 (case gather nodes side_node_idx of
                    Err e \<Rightarrow> Err e
                  | Undefined \<Rightarrow> Undefined
                  | Ok connectivity \<Rightarrow>
                      (case create_sideset_element C (st_db st) connectivity subtype of
                         Err e \<Rightarrow> Err MB_FAILURE
                       | Undefined \<Rightarrow> Undefined
                       | Ok (ent_handle', db') \<Rightarrow>
                           read_factors num_dist_factors k temp
                             (st\<lparr> st_db := db',
                                  st_entities_to_add := st_entities_to_add st @ [ent_handle'] \<rparr>)))))"

text \<open>
  The local \<open>block_data\<close> of the loop body before the lookup: only \<open>elemType\<close> is
  assigned. It is read only after a successful lookup has replaced it.
\<close>

definition unset_block_data :: "exo_enum \<Rightarrow> ReadBlockData" where
  "unset_block_data E = \<lparr> blockId = 0, startExoId = 0, startMBId = 0, numElements = 0,
     reading_in = False, elemType = EXOII_MAX_ELEM_TYPE E \<rparr>"

text \<open>
  The body of the loop for one pair \<open>(element_ids[i], side_list[i])\<close>. A failed lookup
  is the \<open>continue\<close> of the source; \<open>df_index\<close> keeps what the lookup made of it.
\<close>

definition ss_side_step ::
  "exo_enum \<Rightarrow> catalog \<Rightarrow> ReadBlockData list \<Rightarrow> int \<Rightarrow> int \<Rightarrow> 'd list \<Rightarrow> 'd ss_state \<Rightarrow> int \<times> int
     \<Rightarrow> 'd ss_state outcome" where
  "ss_side_step E C blocksLoading number_dimensions num_dist_factors temp st es =
     (case es of (element_id, side) \<Rightarrow>
      (case find_side_element_type E blocksLoading element_id (unset_block_data E)
              (st_df_index st) side of
         (rc, exoii_type, block_data, df_index') \<Rightarrow>
           if rc \<noteq> MB_SUCCESS then Ok (st\<lparr> st_df_index := df_index' \<rparr>)
           else
             let st = st\<lparr> st_df_index := df_index' \<rparr>;
                 type = ExoIIElementMBEntity C exoii_type;
                 ent_handle = nat (element_id - startExoId block_data) + startMBId block_data;
                 side_num = side - 1
             in
             if type = MBHEX then make_side C type ent_handle 2 side_num num_dist_factors 4 temp st
             else if type = MBTET then
               make_side C type ent_handle 2 side_num num_dist_factors 3 temp st
             else if type = MBQUAD \<and> exoii_type \<ge> EXOII_SHELL E \<and> exoii_type \<le> EXOII_SHELL9 E then
               (if side = 1 then
                  read_factors num_dist_factors 4 temp
                    (st\<lparr> st_entities_to_add := st_entities_to_add st @ [ent_handle] \<rparr>)
                else if side = 2 then
                  read_factors num_dist_factors 4 temp
                    (st\<lparr> st_reverse_entities := st_reverse_entities st @ [ent_handle] \<rparr>)
                else make_side C type ent_handle 1 (side_num - 2) num_dist_factors 2 temp st)
             else if type = MBQUAD then
               make_side C type ent_handle 1 side_num num_dist_factors 2 temp st
             else if type = MBTRI then
               (if number_dimensions = 3 \<and> side \<le> 2 then
                  read_factors num_dist_factors 3 temp
                    (st\<lparr> st_entities_to_add := st_entities_to_add st @ [ent_handle] \<rparr>)
                else
                  let side_offset = (if number_dimensions = 3 \<and> side > 2 then 2 else 0)
                  in make_side C type ent_handle 1 (side_num - side_offset)
                       num_dist_factors 2 temp st)
             else Ok st))"

fun ss_loop ::
  "exo_enum \<Rightarrow> catalog \<Rightarrow> ReadBlockData list \<Rightarrow> int \<Rightarrow> int \<Rightarrow> 'd list \<Rightarrow> (int \<times> int) list
     \<Rightarrow> 'd ss_state \<Rightarrow> 'd ss_state outcome" where
  "ss_loop E C blocksLoading number_dimensions num_dist_factors temp [] st = Ok st"
| "ss_loop E C blocksLoading number_dimensions num_dist_factors temp (es # rest) st =
     (case ss_side_step E C blocksLoading number_dimensions num_dist_factors temp st es of
        Err e \<Rightarrow> Err e
      | Undefined \<Rightarrow> Undefined
      | Ok st' \<Rightarrow> ss_loop E C blocksLoading number_dimensions num_dist_factors temp rest st')"

text \<open>
  \<open>create_ss_elements\<close>: the factors of \<open>dist_fact_ss<i>\<close> are read when there are any,
  then the sides are walked.
\<close>

definition create_ss_elements ::
  "exo_enum \<Rightarrow> catalog \<Rightarrow> ReadBlockData list \<Rightarrow> int \<Rightarrow> 'd mesh_db \<Rightarrow> int list \<Rightarrow> int list
     \<Rightarrow> int \<Rightarrow> 'd list option \<Rightarrow> 'd ss_state outcome" where
  "create_ss_elements E C blocksLoading number_dimensions db element_ids side_list
       num_dist_factors dist_fact_ss =
     (case (if num_dist_factors \<noteq> 0 then nc_get dist_fact_ss (nat num_dist_factors)
            else Ok []) of
        Err e \<Rightarrow> Err e
      | Undefined \<Rightarrow> Undefined
      | Ok temp_dist_factor_vector \<Rightarrow>
          ss_loop E C blocksLoading number_dimensions num_dist_factors temp_dist_factor_vector
            (zip element_ids side_list)
            \<lparr> st_db = db, st_entities_to_add = [], st_reverse_entities = [],
              st_dist_factor_vector = [], st_df_index = 0 \<rparr>)"

section \<open>read\_sidesets\<close>

text \<open>
  The "distribution factor stuff" at the end of the loop body of \<open>read_sidesets\<close>: the
  factors already on the set, if any, are copied behind the new ones with
  \<open>std::back_inserter\<close>, and the result is stored on the set.
\<close>

definition sideset_dist_factors ::
  "'d mesh_db \<Rightarrow> EntityHandle \<Rightarrow> int \<Rightarrow> 'd list \<Rightarrow> 'd mesh_db" where
  "sideset_dist_factors db ss_handle number_dist_factors_in_set temp_dist_factor_vector =
     (if number_dist_factors_in_set \<noteq> 0 then
        set_dist_factor db ss_handle
          (case get_dist_factor db ss_handle of
             Ok data \<Rightarrow> temp_dist_factor_vector @ data
           | _ \<Rightarrow> temp_dist_factor_vector)
      else db)"

text \<open>
  The block "also make a reverse set to put in this set": a new unordered meshset is
  added to the side set, receives the reverse entities and is tagged \<open>SENSE = -1\<close>. The
  lookup or creation of the tag \<open>SENSE\<close> itself is not modelled.
\<close>

definition add_reverse_set ::
  "'d mesh_db \<Rightarrow> EntityHandle \<Rightarrow> EntityHandle list \<Rightarrow> 'd mesh_db outcome" where
  "add_reverse_set db ss_handle reverse_entities =
     (case create_meshset db False of
        (reverse_set, db1) \<Rightarrow>
          (case add_entities db1 ss_handle [reverse_set] of
             Err e \<Rightarrow> Err e
           | Undefined \<Rightarrow> Undefined
           | Ok db2 \<Rightarrow>
               (case add_entities db2 reverse_set reverse_entities of
                  Err e \<Rightarrow> Err e
                | Undefined \<Rightarrow> Undefined
                | Ok db3 \<Rightarrow> Ok (tag_set_data db3 SenseTag reverse_set (- 1)))))"

text \<open>
  The side set to add to: a new ordered meshset, tagged with the id, when none was found
  (\<open>ss_handle = 0\<close>), and only then the reverse set; else the set that was found.
\<close>

definition sideset_target ::
  "'d mesh_db \<Rightarrow> int \<Rightarrow> EntityHandle \<Rightarrow> EntityHandle list \<Rightarrow> (EntityHandle \<times> 'd mesh_db) outcome" where
  "sideset_target db sideset_id ss_handle reverse_entities =
     (if ss_handle = 0 then
        (case create_meshset db True of
           (ss_handle', db1) \<Rightarrow>
             if ss_handle' = 0 then Err MB_FAILURE
             else
               let db2 = tag_set_data db1 NeumannSetTag ss_handle' sideset_id;
                   db3 = tag_set_data db2 GlobalIdTag ss_handle' sideset_id
               in if reverse_entities \<noteq> [] then
                    (case add_reverse_set db3 ss_handle' reverse_entities of
                       Err e \<Rightarrow> Err e
                     | Undefined \<Rightarrow> Undefined
                     | Ok db4 \<Rightarrow> Ok (ss_handle', db4))
                  else Ok (ss_handle', db3))
      else Ok (ss_handle, db))"

text \<open>
  The part of the loop body after \<open>create_ss_elements\<close>, run when there is something
  to add.
\<close>

definition sideset_commit ::
  "'d mesh_db \<Rightarrow> EntityHandle list \<Rightarrow> int \<Rightarrow> EntityHandle list \<Rightarrow> EntityHandle list \<Rightarrow> int
     \<Rightarrow> 'd list \<Rightarrow> 'd mesh_db outcome" where
  "sideset_commit db child_meshsets sideset_id entities_to_add reverse_entities
       number_dist_factors_in_set temp_dist_factor_vector =
     (if entities_to_add \<noteq> [] \<or> reverse_entities \<noteq> [] then
        (let ss_handle = find_set_by_tag db NeumannSetTag sideset_id child_meshsets in
         case sideset_target db sideset_id ss_handle reverse_entities of
           Err e \<Rightarrow> Err e
         | Undefined \<Rightarrow> Undefined
         | Ok (ss_handle', db1) \<Rightarrow>
             (case add_entities db1 ss_handle' entities_to_add of
                Ok db2 \<Rightarrow>
                  Ok (sideset_dist_factors db2 ss_handle' number_dist_factors_in_set
                        temp_dist_factor_vector)
              | _ \<Rightarrow> Err MB_FAILURE))
      else Ok db)"

text \<open>
  The dimensions and variables of side set number \<open>i\<close>, the loop body for one set, and
  \<open>read_sidesets\<close>. \<open>child_meshsets\<close> is computed once, before the loop: the meshsets
  beyond \<open>initRange\<close> at that moment.
\<close>

record 'd sideset_vars =
  num_side_ss :: dim_lookup
  num_df_ss :: dim_lookup
  side_ss :: "int list option"
  elem_ss :: "int list option"
  dist_fact_ss :: "'d list option"

definition read_sideset ::
  "exo_enum \<Rightarrow> catalog \<Rightarrow> ReadBlockData list \<Rightarrow> int \<Rightarrow> EntityHandle list \<Rightarrow> int
     \<Rightarrow> 'd sideset_vars \<Rightarrow> 'd mesh_db \<Rightarrow> 'd mesh_db outcome" where
  "read_sideset E C blocksLoading number_dimensions child_meshsets sideset_id f db =
     (case GET_DIMB (num_side_ss f) of Err e \<Rightarrow> Err e | Undefined \<Rightarrow> Undefined
      | Ok number_sides_in_set \<Rightarrow>
     (case GET_DIMB (num_df_ss f) of Err e \<Rightarrow> Err e | Undefined \<Rightarrow> Undefined
      | Ok number_dist_factors_in_set \<Rightarrow>
     (case nc_get (side_ss f) (nat number_sides_in_set) of
        Err e \<Rightarrow> Err e | Undefined \<Rightarrow> Undefined
      | Ok side_list \<Rightarrow>
     (case nc_get (elem_ss f) (nat number_sides_in_set) of
        Err e \<Rightarrow> Err e | Undefined \<Rightarrow> Undefined
      | Ok element_list \<Rightarrow>
     (case create_ss_elements E C blocksLoading number_dimensions db element_list side_list
             number_dist_factors_in_set (dist_fact_ss f) of
        Err e \<Rightarrow> Err MB_FAILURE
      | Undefined \<Rightarrow> Undefined
      | Ok st \<Rightarrow>
          sideset_commit (st_db st) child_meshsets sideset_id (st_entities_to_add st)
            (st_reverse_entities st) number_dist_factors_in_set (st_dist_factor_vector st))))))"




section \<open>Sides of blocks that are not read\<close>

text \<open>
  A block owns an element id within its id range. \<open>enum_ok\<close> says that the element-type
  families named by the source are ranges of the enumeration in its declaration order:
  tri, quad, shell, tetra, hex, each before the next, all before \<open>EXOII_MAX_ELEM_TYPE\<close>.
\<close>

definition owns :: "int \<Rightarrow> ReadBlockData \<Rightarrow> bool" where
  "owns exodus_id b \<longleftrightarrow> startExoId b \<le> exodus_id \<and> exodus_id < startExoId b + numElements b"

definition enum_ok :: "exo_enum \<Rightarrow> bool" where
  "enum_ok E \<longleftrightarrow>
     EXOII_TRI E \<le> EXOII_TRI7 E \<and> EXOII_TRI7 E < EXOII_QUAD E \<and>
     EXOII_QUAD E \<le> EXOII_QUAD9 E \<and> EXOII_QUAD9 E < EXOII_SHELL E \<and>
     EXOII_SHELL E \<le> EXOII_SHELL9 E \<and> EXOII_SHELL9 E < EXOII_TETRA E \<and>
     EXOII_TETRA E \<le> EXOII_TETRA14 E \<and> EXOII_TETRA14 E < EXOII_HEX E \<and>
     EXOII_HEX E \<le> EXOII_HEX27 E \<and> EXOII_HEX27 E < EXOII_MAX_ELEM_TYPE E"

lemma find_side_loop_unselected:
  "find (owns exodus_id) blocks = Some b \<Longrightarrow> \<not> reading_in b \<Longrightarrow>
   find_side_loop E blocks exodus_id t bd df side_id =
     (MB_FAILURE, elemType b, bd, df + unselected_advance E (elemType b) side_id)"
  by (induction blocks) (auto simp: owns_def split: if_splits)

lemma ss_side_step_skip:
  assumes "find_side_element_type E blocks exodus_id (unset_block_data E) (st_df_index st) side_id
             = (MB_FAILURE, t, bd, df')"
  shows "ss_side_step E C blocks nd ndf temp st (exodus_id, side_id) = Ok (st\<lparr> st_df_index := df' \<rparr>)"
  using assms by (simp add: ss_side_step_def)

text \<open>
  \<open>read_block_headers\<close> records every block with the element type
  \<open>EXOII_MAX_ELEM_TYPE\<close>, and for that type the cursor is not advanced.
\<close>

lemma block_header_step_elemType:
  "block_header_step E f block_ids new_blocks iter k x = Ok (b, x') \<Longrightarrow>
   elemType b = EXOII_MAX_ELEM_TYPE E"
  by (auto simp: block_header_step_def split: outcome.splits)

lemma block_header_loop_elemType:
  "block_header_loop E f block_ids new_blocks its k x acc = Ok bs \<Longrightarrow>
   list_all (\<lambda>b. elemType b = EXOII_MAX_ELEM_TYPE E) acc \<Longrightarrow>
   list_all (\<lambda>b. elemType b = EXOII_MAX_ELEM_TYPE E) bs"
proof (induction its arbitrary: k x acc)
  case Nil
  then show ?case by simp
next
  case (Cons it its)
  from Cons.prems(1) obtain b x' where
    step: "block_header_step E f block_ids new_blocks it k x = Ok (b, x')" and
    rest: "block_header_loop E f block_ids new_blocks its (Suc k) x' (acc @ [b]) = Ok bs"
    by (auto split: outcome.splits)
  have "list_all (\<lambda>b. elemType b = EXOII_MAX_ELEM_TYPE E) (acc @ [b])"
    using Cons.prems(2) block_header_step_elemType [OF step] by simp
  from Cons.IH [OF rest this] show ?case .
qed

lemma unselected_advance_unresolved_type:
  "enum_ok E \<Longrightarrow> unselected_advance E (EXOII_MAX_ELEM_TYPE E) side_id = 0"
  by (auto simp: unselected_advance_def enum_ok_def)

text \<open>
  What \<open>find_side_element_type\<close> and the loop body of \<open>create_ss_elements\<close> do on a
  list in which the block that owns the element is not read, whatever built the list:
  the lookup fails after advancing \<open>df_index\<close> by the amount of the block's recorded
  element type, and the loop body changes nothing but \<open>df_index\<close>.
\<close>

lemma find_side_element_type_on_unread_block:
  assumes ok: "enum_ok E"
      and own: "find (owns exodus_id) blocksLoading = Some b"
      and unsel: "\<not> reading_in b"
  shows "find_side_element_type E blocksLoading exodus_id block_data df_index side_id =
           (MB_FAILURE, elemType b, block_data,
            df_index + unselected_advance E (elemType b) side_id)
       \<and> ss_side_step E C blocksLoading number_dimensions num_dist_factors temp st
             (exodus_id, side_id) =
           Ok (st\<lparr> st_df_index := st_df_index st + unselected_advance E (elemType b) side_id \<rparr>)
       \<and> (EXOII_HEX E \<le> elemType b \<and> elemType b \<le> EXOII_HEX27 E \<longrightarrow>
            unselected_advance E (elemType b) side_id = 4)
       \<and> (EXOII_TETRA E \<le> elemType b \<and> elemType b \<le> EXOII_TETRA14 E \<longrightarrow>
            unselected_advance E (elemType b) side_id = 3)
       \<and> (EXOII_QUAD E \<le> elemType b \<and> elemType b \<le> EXOII_QUAD9 E \<longrightarrow>
            unselected_advance E (elemType b) side_id = 2)
       \<and> (EXOII_TRI E \<le> elemType b \<and> elemType b \<le> EXOII_TRI7 E \<longrightarrow>
            unselected_advance E (elemType b) side_id = 3)
       \<and> (EXOII_SHELL E \<le> elemType b \<and> elemType b \<le> EXOII_SHELL9 E \<longrightarrow>
            unselected_advance E (elemType b) side_id =
              (if side_id = 1 \<or> side_id = 2 then 4 else 2))"
proof -
  have a: "\<And>bd df. find_side_element_type E blocksLoading exodus_id bd df side_id =
           (MB_FAILURE, elemType b, bd, df + unselected_advance E (elemType b) side_id)"
    unfolding find_side_element_type_def
    by (rule find_side_loop_unselected [OF own unsel])
  have b: "ss_side_step E C blocksLoading number_dimensions num_dist_factors temp st
             (exodus_id, side_id) =
           Ok (st\<lparr> st_df_index := st_df_index st + unselected_advance E (elemType b) side_id \<rparr>)"
    by (rule ss_side_step_skip [OF a])
  have c: "EXOII_HEX E \<le> elemType b \<and> elemType b \<le> EXOII_HEX27 E \<longrightarrow>
            unselected_advance E (elemType b) side_id = 4"
    by (simp add: unselected_advance_def)
  have d: "EXOII_TETRA E \<le> elemType b \<and> elemType b \<le> EXOII_TETRA14 E \<longrightarrow>
            unselected_advance E (elemType b) side_id = 3"
    using ok by (auto simp: unselected_advance_def enum_ok_def)
  have e: "EXOII_QUAD E \<le> elemType b \<and> elemType b \<le> EXOII_QUAD9 E \<longrightarrow>
            unselected_advance E (elemType b) side_id = 2"
    using ok by (auto simp: unselected_advance_def enum_ok_def)
  have f: "EXOII_TRI E \<le> elemType b \<and> elemType b \<le> EXOII_TRI7 E \<longrightarrow>
            unselected_advance E (elemType b) side_id = 3"
    using ok by (auto simp: unselected_advance_def enum_ok_def)
  have g: "EXOII_SHELL E \<le> elemType b \<and> elemType b \<le> EXOII_SHELL9 E \<longrightarrow>
            unselected_advance E (elemType b) side_id =
              (if side_id = 1 \<or> side_id = 2 then 4 else 2)"
    using ok by (auto simp: unselected_advance_def enum_ok_def)
  from a b c d e f g show ?thesis by blast
qed

text \<open>
  What a successful \<open>read_elements\<close> makes of \<open>blocksLoading\<close>: a block that is not
  read is passed over (\<open>continue\<close>) and keeps the element type and handle that
  \<open>read_block_headers\<close> recorded; a block that is read receives the element type named
  by attribute \<open>elem_type\<close> of \<open>connect<k>\<close> and the first handle reserved for its
  elements. Both are parameters, by block sequence number.
\<close>

fun read_elements_blocks ::
  "(nat \<Rightarrow> ExoIIElementType) \<Rightarrow> (nat \<Rightarrow> EntityHandle) \<Rightarrow> nat \<Rightarrow> ReadBlockData list
     \<Rightarrow> ReadBlockData list" where
  "read_elements_blocks elem_type_of start_handle block_seq_id [] = []"
| "read_elements_blocks elem_type_of start_handle block_seq_id (this_it # rest) =
     (if \<not> reading_in this_it then this_it
      else this_it\<lparr> elemType := elem_type_of block_seq_id,
                    startMBId := start_handle block_seq_id \<rparr>)
     # read_elements_blocks elem_type_of start_handle (Suc block_seq_id) rest"

text \<open>
  So a block that is not read would still have the type \<open>EXOII_MAX_ELEM_TYPE\<close> when
  the side sets are read, and a side of its elements would leave \<open>df_index\<close> where it
  is, whatever the type of the block in the file.
\<close>

lemma unread_block_leaves_cursor:
  assumes "enum_ok E"
      and "find (owns exodus_id) blocks = Some b"
      and "\<not> reading_in b"
      and "elemType b = EXOII_MAX_ELEM_TYPE E"
  shows "find_side_element_type E blocks exodus_id block_data df_index side_id =
           (MB_FAILURE, EXOII_MAX_ELEM_TYPE E, block_data, df_index)"
  using find_side_loop_unselected [OF assms(2,3)] assms(1,4)
  by (simp add: find_side_element_type_def unselected_advance_unresolved_type)

text \<open>
  The block list that \<open>read_block_headers\<close> builds for the file with the blocks 10 and
  20 when the caller lists the blocks 20 and 30.
\<close>

definition two_block_headers :: "ReadBlockData list" where
  "two_block_headers =
     [\<lparr> blockId = 10, startExoId = 1, startMBId = 0, numElements = 3,
         reading_in = True, elemType = 43 \<rparr>,
      \<lparr> blockId = 20, startExoId = 4, startMBId = 0, numElements = 2,
         reading_in = True, elemType = 43 \<rparr>]"

text \<open>
  C7. The claim: a side of an element whose block is not selected for reading is
  skipped, with \<open>df_index\<close> advanced by the side cardinality of the block's type, and
  no entity is emitted. In the file with the blocks 10 and 20, both of shell elements,
  and the caller's list \<open>[20, 30]\<close>, block 10 is not selected; \<open>read_block_headers\<close>
  marks it as read all the same, \<open>read_elements\<close> reads it (its first element is
  handle 50), and side 1 of element 1 is emitted as an entity of the side set.
\<close>

theorem side_of_unlisted_block_is_emitted:
  "read_block_headers moab_enum two_block_file 2 [] (Some [20, 30]) 2 = Ok two_block_headers \<and>
   create_ss_elements moab_enum moab_catalog
       (read_elements_blocks (\<lambda>k. 21) (\<lambda>k. 50 * k) 1 two_block_headers) 3 quad_db
       [1] [1] 0 None =
     Ok \<lparr> st_db = quad_db, st_entities_to_add = [50], st_reverse_entities = [],
          st_dist_factor_vector = [], st_df_index = 0 \<rparr>"
proof -
  have hdr: "read_block_headers moab_enum two_block_file 2 [] (Some [20, 30]) 2 =
      Ok two_block_headers"
    by (simp add: read_block_headers_def two_block_file_def copy_range_def
          block_header_step_def GET_DIMB_def dimension_exists_def std_find_def vec_end_def
          moab_enum_def two_block_headers_def)
  have sides: "create_ss_elements moab_enum moab_catalog
       (read_elements_blocks (\<lambda>k. 21) (\<lambda>k. 50 * k) 1 two_block_headers) 3 quad_db
       [1] [1] 0 None =
     Ok \<lparr> st_db = quad_db, st_entities_to_add = [50], st_reverse_entities = [],
          st_dist_factor_vector = [], st_df_index = 0 \<rparr>"
    by (simp add: create_ss_elements_def ss_side_step_def find_side_element_type_def
          two_block_headers_def moab_enum_def moab_catalog_def read_factors_def
          unset_block_data_def)
  from hdr sides show ?thesis by simp
qed

section \<open>The reverse-sense child of a side set\<close>

lemma add_entities_ordered:
  "db_sets db h = Some (True, ms) \<Longrightarrow>
   add_entities db h ents = Ok (db\<lparr> db_sets := (db_sets db)(h \<mapsto> (True, ms @ ents)) \<rparr>)"
  by (simp add: add_entities_def)

lemma add_entities_unordered:
  "db_sets db h = Some (False, ms) \<Longrightarrow>
   add_entities db h ents =
     Ok (db\<lparr> db_sets := (db_sets db)(h \<mapsto> (False, sort (remdups (ms @ ents)))) \<rparr>)"
  by (simp add: add_entities_def)

















text \<open>
  The hypotheses on the tag hold for every side set of a file once they hold for the
  first: nothing that \<open>read_sidesets\<close> does for one side set changes the side-set
  tag of a meshset that existed before, or the default of the tag, and handles are only
  added. \<open>read_nodesets\<close>, which runs before, sets no side-set tag at all.
\<close>

definition keeps_side_set_tags :: "'d mesh_db \<Rightarrow> 'd mesh_db \<Rightarrow> bool" where
  "keeps_side_set_tags db db' \<longleftrightarrow>
     db_next db \<le> db_next db' \<and> db_tag_default db' = db_tag_default db \<and>
     (\<forall>h. h < db_next db \<longrightarrow> db_tags db' NeumannSetTag h = db_tags db NeumannSetTag h)"

lemma keeps_side_set_tags_refl: "keeps_side_set_tags db db"
  by (simp add: keeps_side_set_tags_def)

lemma keeps_side_set_tags_trans:
  "keeps_side_set_tags db1 db2 \<Longrightarrow> keeps_side_set_tags db2 db3 \<Longrightarrow> keeps_side_set_tags db1 db3"
  by (auto simp: keeps_side_set_tags_def)

lemma create_sideset_element_keeps:
  "create_sideset_element C db c t = Ok (h, db') \<Longrightarrow> keeps_side_set_tags db db'"
  by (auto simp: create_sideset_element_def create_element_def keeps_side_set_tags_def Let_def
           split: if_splits option.splits)

lemma read_factors_db: "read_factors ndf k temp st = Ok st' \<Longrightarrow> st_db st' = st_db st"
  by (auto simp: read_factors_def split: if_splits outcome.splits)

lemma make_side_keeps:
  assumes "make_side C t h d i ndf k temp st = Ok st'"
  shows "keeps_side_set_tags (st_db st) (st_db st')"
proof -
  from assms obtain c sub h' db' where
    cse: "create_sideset_element C (st_db st) c sub = Ok (h', db')" and
    rf: "read_factors ndf k temp
           (st\<lparr> st_db := db', st_entities_to_add := st_entities_to_add st @ [h'] \<rparr>) = Ok st'"
    by (auto simp: make_side_def split: option.splits prod.splits if_splits outcome.splits)
  from read_factors_db [OF rf] create_sideset_element_keeps [OF cse] show ?thesis by simp
qed

lemma ss_side_step_keeps:
  assumes "ss_side_step E C blocks nd ndf temp st es = Ok st'"
  shows "keeps_side_set_tags (st_db st) (st_db st')"
proof -
  obtain e s where es: "es = (e, s)" by (cases es)
  obtain rc t bd df' where
    f: "find_side_element_type E blocks e (unset_block_data E) (st_df_index st) s = (rc, t, bd, df')"
    by (cases "find_side_element_type E blocks e (unset_block_data E) (st_df_index st) s") auto
  show ?thesis
  proof (cases "rc = MB_SUCCESS")
    case False
    with assms f show ?thesis
      by (auto simp: ss_side_step_def es keeps_side_set_tags_refl)
  next
    case True
    with assms f show ?thesis
      by (auto simp: ss_side_step_def es Let_def keeps_side_set_tags_refl
               dest!: make_side_keeps read_factors_db split: if_splits)
  qed
qed

lemma ss_loop_keeps:
  "ss_loop E C blocks nd ndf temp ess st = Ok st' \<Longrightarrow> keeps_side_set_tags (st_db st) (st_db st')"
proof (induction ess arbitrary: st)
  case Nil
  then show ?case by (simp add: keeps_side_set_tags_refl)
next
  case (Cons es ess)
  from Cons.prems obtain st1 where
    one: "ss_side_step E C blocks nd ndf temp st es = Ok st1" and
    rest: "ss_loop E C blocks nd ndf temp ess st1 = Ok st'"
    by (auto split: outcome.splits)
  from keeps_side_set_tags_trans [OF ss_side_step_keeps [OF one] Cons.IH [OF rest]]
  show ?case .
qed

lemma create_ss_elements_keeps:
  "create_ss_elements E C blocks nd db es ss ndf var = Ok st \<Longrightarrow>
   keeps_side_set_tags db (st_db st)"
  by (auto simp: create_ss_elements_def dest!: ss_loop_keeps split: outcome.splits if_splits)

lemma sideset_commit_keeps:
  assumes "sideset_commit db child sid ents revs ndf temp = Ok db'"
  shows "keeps_side_set_tags db db'"
  using assms
  by (auto simp: sideset_commit_def sideset_target_def add_reverse_set_def create_meshset_def
        add_entities_def tag_set_data_def sideset_dist_factors_def set_dist_factor_def
        keeps_side_set_tags_def Let_def
      split: if_splits outcome.splits option.splits prod.splits)

lemma read_sideset_keeps:
  assumes "read_sideset E C blocks nd child sid f db = Ok db'"
  shows "keeps_side_set_tags db db'"
proof -
  from assms obtain el sl ndf st where
    c: "create_ss_elements E C blocks nd db el sl ndf (dist_fact_ss f) = Ok st" and
    k: "sideset_commit (st_db st) child sid (st_entities_to_add st) (st_reverse_entities st)
          ndf (st_dist_factor_vector st) = Ok db'"
    by (auto simp: read_sideset_def split: outcome.splits)
  from keeps_side_set_tags_trans [OF create_ss_elements_keeps [OF c] sideset_commit_keeps [OF k]]
  show ?thesis .
qed

lemma read_sideset_keeps_untagged:
  assumes "read_sideset E C blocks nd child sid f db = Ok db'"
      and "list_all (\<lambda>h. h < db_next db \<and> db_tags db NeumannSetTag h = None) child"
  shows "list_all (\<lambda>h. h < db_next db' \<and> db_tags db' NeumannSetTag h = None) child
       \<and> db_tag_default db' NeumannSetTag = db_tag_default db NeumannSetTag"
  using read_sideset_keeps [OF assms(1)] assms(2)
  by (auto simp: keeps_side_set_tags_def list_all_iff)

lemma nodeset_commit_side_set_tags:
  assumes "nodeset_commit db nid h nodes dfv = Ok db'"
  shows "db_tags db' NeumannSetTag = db_tags db NeumannSetTag \<and>
         db_tag_default db' = db_tag_default db"
  using assms
  by (auto simp: nodeset_commit_def nodeset_target_def create_meshset_def tag_set_data_def
        set_dist_factor_def append_nodeset_dist_factors_def add_entities_def Let_def
      split: if_splits outcome.splits option.splits prod.splits)

lemma read_nodeset_side_set_tags:
  assumes "read_nodeset C touched vo child nid f db = Ok db'"
  shows "db_tags db' NeumannSetTag = db_tags db NeumannSetTag \<and>
         db_tag_default db' = db_tag_default db"
proof -
  from assms obtain h nodes dfv where "nodeset_commit db nid h nodes dfv = Ok db'"
    by (auto simp: read_nodeset_def Let_def split: outcome.splits)
  then show ?thesis by (rule nodeset_commit_side_set_tags)
qed

lemma read_nodesets_loop_side_set_tags:
  "read_nodesets_loop C touched vo post_init fs db = Ok db' \<Longrightarrow>
   db_tags db' NeumannSetTag = db_tags db NeumannSetTag \<and> db_tag_default db' = db_tag_default db"
proof (induction fs arbitrary: db)
  case Nil
  then show ?case by simp
next
  case (Cons p fs)
  obtain nid f where p: "p = (nid, f)" by (cases p)
  from Cons.prems obtain db1 where
    one: "read_nodeset C touched vo (post_init db) nid f db = Ok db1" and
    rest: "read_nodesets_loop C touched vo post_init fs db1 = Ok db'"
    by (auto simp: p split: outcome.splits)
  from Cons.IH [OF rest] read_nodeset_side_set_tags [OF one] show ?case by simp
qed

lemma read_nodesets_side_set_tags:
  assumes "read_nodesets C touched vo post_init n f db = Ok db'"
  shows "db_tags db' NeumannSetTag = db_tags db NeumannSetTag \<and>
         db_tag_default db' = db_tag_default db"
proof (cases "n = 0")
  case True
  with assms show ?thesis by (simp add: read_nodesets_def)
next
  case False
  with assms obtain zs where
    "read_nodesets_loop C touched vo post_init zs db = Ok db'"
    by (auto simp: read_nodesets_def split: outcome.splits)
  then show ?thesis by (rule read_nodesets_loop_side_set_tags)
qed

section \<open>Distribution factors of a set that exists already\<close>

text \<open>
  Both readers put the factors that the set holds behind the factors read for it, and
  store the result: for a set with the factors \<open>old\<close>, the two merging branches store
  \<open>new @ old\<close>.
\<close>

lemma dist_factors_of_existing_set:
  assumes "db_dist_factor db h = Some old"
  shows "append_nodeset_dist_factors db h new = Ok (set_dist_factor db h (new @ old))"
    and "number_dist_factors_in_set \<noteq> 0 \<Longrightarrow>
           sideset_dist_factors db h number_dist_factors_in_set new =
             set_dist_factor db h (new @ old)"
  using assms
  by (simp_all add: append_nodeset_dist_factors_def sideset_dist_factors_def get_dist_factor_def)

text \<open>
  The end of the loop body of \<open>read_nodesets\<close> on an ordered set \<open>ns_handle\<close> that was
  found, with the members \<open>ms\<close> and the factors \<open>old\<close>: the new nodes go behind the
  members, the new factors before the factors.
\<close>

lemma nodeset_commit_existing:
  assumes "ns_handle \<noteq> 0" and "nodes \<noteq> []" and "dist_factor_vector \<noteq> []"
      and "db_dist_factor db ns_handle = Some old"
      and "db_sets db ns_handle = Some (True, ms)"
  shows "nodeset_commit db nodeset_id ns_handle nodes dist_factor_vector =
           Ok (db\<lparr> db_dist_factor := (db_dist_factor db)(ns_handle \<mapsto> dist_factor_vector @ old),
                   db_sets := (db_sets db)(ns_handle \<mapsto> (True, ms @ nodes)) \<rparr>)"
  using assms
  by (simp add: nodeset_commit_def nodeset_target_def append_nodeset_dist_factors_def
        get_dist_factor_def set_dist_factor_def add_entities_def)

text \<open>
  A file with two node sets of the same id 5: the first on the nodes 1 and 2 with the
  factors 7 and 9, the second on the node 3 with the factor 8. \<open>read_nodesets\<close> asks for
  the meshsets beyond \<open>initRange\<close> anew for each set, so the second set finds the meshset
  made for the first. In \<open>empty_db\<close> these are the handles from 200 on.
\<close>

definition same_id_nodesets_file :: "int nodesets_file" where
  "same_id_nodesets_file = \<lparr> ns_prop1 = Some [5, 5],
     ns_vars = (\<lambda>i. if i = 1
        then \<lparr> num_nod_ns = Dim_size 2, num_df_ns = Dim_size 2,
               dist_fact_ns = Some [7, 9], node_ns = Some [1, 2] \<rparr>
        else \<lparr> num_nod_ns = Dim_size 1, num_df_ns = Dim_size 1,
               dist_fact_ns = Some [8], node_ns = Some [3] \<rparr>) \<rparr>"

definition beyond_init_range :: "'d mesh_db \<Rightarrow> EntityHandle list" where
  "beyond_init_range db = [200..<db_next db]"

definition same_id_nodesets_db :: "int mesh_db" where
  "same_id_nodesets_db = \<lparr> db_next = 201, db_ents = [],
     db_sets = [200 \<mapsto> (True, [101, 102, 103])],
     db_tags = (\<lambda>t. Map.empty)(DirichletSetTag := [200 \<mapsto> 5], GlobalIdTag := [200 \<mapsto> 5]),
     db_tag_default = (\<lambda>t. Some 0), db_dist_factor = [200 \<mapsto> [8, 7, 9]] \<rparr>"

text \<open>
  C6. The claim: merging into a set that exists stores the factors that were there
  followed by the new ones. \<open>read_nodesets\<close> on the file above, with the nodes 1, 2 and 3
  touched and vertex offset 100, makes the one meshset 200 with the vertices 101, 102,
  103 in this order, and stores the factors 8, 7, 9 on it: the factor 8 of the vertex
  added last comes first, and not \<open>[7, 9] @ [8]\<close>.
\<close>

theorem read_nodesets_merge_stores_new_factors_first:
  "read_nodesets moab_catalog [False, True, True, True] 100 beyond_init_range 2
     same_id_nodesets_file empty_db = Ok same_id_nodesets_db \<and>
   get_entities_by_handle same_id_nodesets_db 200 = Ok [101, 102, 103] \<and>
   get_dist_factor same_id_nodesets_db 200 = Ok [8, 7, 9] \<and>
   get_dist_factor same_id_nodesets_db 200 \<noteq> Ok ([7, 9] @ [8])"
proof -
  have first: "read_nodeset moab_catalog [False, True, True, True] 100
      (beyond_init_range empty_db) 5 (ns_vars same_id_nodesets_file 1) empty_db =
        Ok one_nodeset_db"
    by (simp add: same_id_nodesets_file_def empty_db_def one_nodeset_db_def
        beyond_init_range_def
        nc_get_def read_nodeset_def GET_DIMB_def dimension_exists_def read_dist_fact_ns_def
        node_id_of_def moab_catalog_def nodeset_commit_def nodeset_target_def create_meshset_def
        tag_set_data_def set_dist_factor_def add_entities_def fun_upd_twist)
  have second: "read_nodeset moab_catalog [False, True, True, True] 100
      (beyond_init_range one_nodeset_db) 5 (ns_vars same_id_nodesets_file 2) one_nodeset_db =
        Ok same_id_nodesets_db"
    by (simp add: same_id_nodesets_file_def one_nodeset_db_def same_id_nodesets_db_def
        beyond_init_range_def tag_get_data_def get_entities_by_handle_def
        nc_get_def read_nodeset_def GET_DIMB_def dimension_exists_def read_dist_fact_ns_def
        node_id_of_def moab_catalog_def nodeset_commit_def nodeset_target_def
        append_nodeset_dist_factors_def get_dist_factor_def
        set_dist_factor_def add_entities_def fun_upd_twist)
  have run: "read_nodesets moab_catalog [False, True, True, True] 100 beyond_init_range 2
     same_id_nodesets_file empty_db = Ok same_id_nodesets_db"
    using first second
    by (simp add: read_nodesets_def nc_get_def same_id_nodesets_file_def numeral_2_eq_2)
  have members: "get_entities_by_handle same_id_nodesets_db 200 = Ok [101, 102, 103]"
    by (simp add: get_entities_by_handle_def same_id_nodesets_db_def)
  have factors: "get_dist_factor same_id_nodesets_db 200 = Ok [8, 7, 9]"
    by (simp add: get_dist_factor_def same_id_nodesets_db_def)
  from run members factors show ?thesis by simp
qed

section \<open>update: the directive\<close>

text \<open>
  \<open>std::string::find_first_of\<close> and \<open>find_first_not_of\<close> from a position, with \<open>npos\<close>
  as \<open>None\<close> (a search from \<open>npos\<close> finds nothing), and \<open>substr\<close>.
\<close>

definition find_first_of :: "string \<Rightarrow> string \<Rightarrow> nat option \<Rightarrow> nat option" where
  "find_first_of str delimiters pos =
     (case pos of
        None \<Rightarrow> None
      | Some p \<Rightarrow> List.find (\<lambda>i. str ! i \<in> set delimiters) [p..<length str])"

definition find_first_not_of :: "string \<Rightarrow> string \<Rightarrow> nat option \<Rightarrow> nat option" where
  "find_first_not_of str delimiters pos =
     (case pos of
        None \<Rightarrow> None
      | Some p \<Rightarrow> List.find (\<lambda>i. str ! i \<notin> set delimiters) [p..<length str])"

definition substr :: "string \<Rightarrow> nat \<Rightarrow> nat \<Rightarrow> string" where
  "substr str pos n = take n (drop pos str)"

lemma find_first_of_bounds:
  "find_first_of str d (Some p) = Some q \<Longrightarrow> p \<le> q \<and> q < length str \<and> str ! q \<in> set d"
  by (auto simp: find_first_of_def find_Some_iff)

lemma find_first_not_of_bounds:
  "find_first_not_of str d (Some p) = Some q \<Longrightarrow> p \<le> q \<and> q < length str \<and> str ! q \<notin> set d"
  by (auto simp: find_first_not_of_def find_Some_iff)

text \<open>
  The two statements at the end of the loop body of \<open>tokenize\<close>:
  \<open>pos = str.find_first_of(delimiters, last); if (npos == pos) pos = str.size()\<close>.
\<close>

definition next_pos :: "string \<Rightarrow> string \<Rightarrow> nat option \<Rightarrow> nat option" where
  "next_pos str delimiters lastp =
     (case find_first_of str delimiters lastp of None \<Rightarrow> Some (length str) | Some q \<Rightarrow> Some q)"

lemma next_pos_gt:
  assumes "find_first_not_of str d (Some p) = Some l"
  shows "\<exists>q. next_pos str d (Some l) = Some q \<and> p < q \<and> q \<le> length str"
proof (cases "find_first_of str d (Some l)")
  case None
  with find_first_not_of_bounds [OF assms] show ?thesis
    by (simp add: next_pos_def)
next
  case (Some q)
  from find_first_of_bounds [OF Some] find_first_not_of_bounds [OF assms]
  have "l \<le> q" "q < length str" "q \<noteq> l" "p \<le> l" by auto
  with Some show ?thesis by (simp add: next_pos_def)
qed

text \<open>
  The loop of \<open>tokenize\<close>, \<open>while (npos != pos && npos != last)\<close>. The length of a
  token is \<open>pos - last\<close> in unsigned arithmetic, which is huge if \<open>pos < last\<close>; then
  \<open>substr\<close> runs to the end of the string. The loop ends: \<open>pos\<close> grows in every round
  that is followed by another.
\<close>

function tokenize_loop ::
  "string \<Rightarrow> string \<Rightarrow> nat option \<Rightarrow> nat option \<Rightarrow> string list \<Rightarrow> string list" where
  "tokenize_loop str delimiters lastp pos tokens =
     (case pos of
        None \<Rightarrow> tokens
      | Some p \<Rightarrow>
          (case lastp of
             None \<Rightarrow> tokens
           | Some l \<Rightarrow>
               tokenize_loop str delimiters
                 (find_first_not_of str delimiters (Some p))
                 (next_pos str delimiters (find_first_not_of str delimiters (Some p)))
                 (tokens @ [substr str l (if l \<le> p then p - l else length str)])))"
  by pat_completeness auto
termination
proof (relation "measure (\<lambda>(str, d, lastp, pos, tokens).
          case lastp of None \<Rightarrow> 0
          | Some l \<Rightarrow> (case pos of None \<Rightarrow> 0 | Some p \<Rightarrow> Suc (length str - p)))")
  show "wf (measure (\<lambda>(str, d, lastp, pos, tokens).
          case lastp of None \<Rightarrow> 0
          | Some l \<Rightarrow> (case pos of None \<Rightarrow> 0 | Some p \<Rightarrow> Suc (length str - p))))"
    by simp
next
  fix str delimiters :: string and lastp pos :: "nat option" and tokens :: "string list"
    and p l :: nat
  assume pos: "pos = Some p" and lastp: "lastp = Some l"
  show "((str, delimiters, find_first_not_of str delimiters (Some p),
          next_pos str delimiters (find_first_not_of str delimiters (Some p)),
          tokens @ [substr str l (if l \<le> p then p - l else length str)]),
         (str, delimiters, lastp, pos, tokens))
        \<in> measure (\<lambda>(str, d, lastp, pos, tokens).
          case lastp of None \<Rightarrow> 0
          | Some l \<Rightarrow> (case pos of None \<Rightarrow> 0 | Some p \<Rightarrow> Suc (length str - p)))"
  proof (cases "find_first_not_of str delimiters (Some p)")
    case None
    then show ?thesis by (simp add: pos lastp)
  next
    case (Some l')
    from next_pos_gt [OF Some] obtain q where
      "next_pos str delimiters (Some l') = Some q" "p < q" "q \<le> length str" by blast
    then show ?thesis by (simp add: pos lastp Some)
  qed
qed

declare tokenize_loop.simps [simp del]

text \<open>\<open>tokenize(str, tokens, delimiters)\<close>, with the tokens as the result.\<close>

definition tokenize :: "string \<Rightarrow> string \<Rightarrow> string list" where
  "tokenize str delimiters =
     (let lastp = find_first_not_of str delimiters (Some 0);
          pos = find_first_of str delimiters lastp
      in tokenize_loop str delimiters lastp pos [])"

text \<open>
  Step 1 of \<open>update\<close>, "check for time step": the default is 1; the second token is
  parsed with \<open>strtol\<close> (of the C library, a parameter: the number and the unparsed
  rest), must be parsed completely, must fit an \<open>int\<close> (the \<open>long\<close> is assigned to the
  \<open>int\<close> and compared with it) and must be positive.
\<close>

definition parse_time_step :: "(string \<Rightarrow> int \<times> string) \<Rightarrow> string list \<Rightarrow> int outcome" where
  "parse_time_step strtol tokens =
     (if length tokens > 1 \<and> tokens ! 1 \<noteq> [] then
        (case strtol (tokens ! 1) of
           (pval, end_str) \<Rightarrow>
             if end_str \<noteq> [] then Err MB_TYPE_OUT_OF_RANGE
             else
               let time_step = sint (word_of_int pval :: 32 word) in
               if pval \<noteq> time_step then Err MB_TYPE_OUT_OF_RANGE
               else if time_step \<le> 0 then Err MB_TYPE_OUT_OF_RANGE
               else Ok time_step)
      else Ok 1)"

section \<open>update: matching the nodes\<close>

text \<open>
  The lines that the node-matching pass prints, and its state: the counters, the map
  \<open>matched_cub_vert_id_map\<close>, the coordinates of the vertices in the database and the
  output so far. \<open>'c\<close> is the type of a coordinate triple.
\<close>

datatype message = Cannot_match_exo_vert int | Nodes_matched int | Nodes_not_matched int

record 'c match_state =
  ms_found :: int
  ms_lost :: int
  ms_matched :: "int \<rightharpoonup> EntityHandle"
  ms_coords :: "EntityHandle \<rightharpoonup> 'c"
  ms_log :: "message list"

text \<open>
  \<open>std::map::insert\<close>, which keeps the value of a key that is present, and the loop that
  fills \<open>cub_verts_id_map\<close> from the ids and handles of the vertices of the file set.
\<close>

definition map_insert :: "('k \<rightharpoonup> 'v) \<Rightarrow> 'k \<Rightarrow> 'v \<Rightarrow> ('k \<rightharpoonup> 'v)" where
  "map_insert m k v = (case m k of None \<Rightarrow> m(k \<mapsto> v) | Some w \<Rightarrow> m)"

fun build_id_map ::
  "(int \<times> EntityHandle) list \<Rightarrow> (int \<rightharpoonup> EntityHandle) \<Rightarrow> (int \<rightharpoonup> EntityHandle)" where
  "build_id_map [] m = m"
| "build_id_map ((cub_id, cub_vert) # rest) m = build_id_map rest (map_insert m cub_id cub_vert)"

text \<open>
  Modelled from the spec: \<open>set_coords\<close> of the mesh database, which fails on a handle
  that is no vertex.
\<close>

definition set_coords ::
  "(EntityHandle \<rightharpoonup> 'c) \<Rightarrow> EntityHandle \<Rightarrow> 'c \<Rightarrow> (EntityHandle \<rightharpoonup> 'c) outcome" where
  "set_coords coords h c = (if h \<in> dom coords then Ok (coords(h \<mapsto> c)) else Err MB_ENTITY_NOT_FOUND)"

text \<open>
  The loop "for each exo vert, find the matching cub vert", with matching by id (the
  source fixes \<open>match_node_ids = true\<close>). One entry per exodus node: its id from
  \<open>node_num_map\<close> and its deformed position, the sum of the original coordinate and
  the displacement, which is floating-point arithmetic and taken as given.
\<close>

fun match_nodes_loop ::
  "(int \<rightharpoonup> EntityHandle) \<Rightarrow> (int \<times> 'c) list \<Rightarrow> 'c match_state \<Rightarrow> 'c match_state outcome" where
  "match_nodes_loop cub_verts_id_map [] st = Ok st"
| "match_nodes_loop cub_verts_id_map ((exo_id, updated_exo_coords) # rest) st =
     (case cub_verts_id_map exo_id of
        Some cub_vert \<Rightarrow>
          (case set_coords (ms_coords st) cub_vert updated_exo_coords of
             Err e \<Rightarrow> Err e
           | Undefined \<Rightarrow> Undefined
           | Ok coords' \<Rightarrow>
               match_nodes_loop cub_verts_id_map rest
                 (st\<lparr> ms_matched := map_insert (ms_matched st) exo_id cub_vert,
                      ms_coords := coords',
                      ms_found := ms_found st + 1 \<rparr>))
      | None \<Rightarrow>
          match_nodes_loop cub_verts_id_map rest
            (st\<lparr> ms_lost := ms_lost st + 1,
                 ms_log := ms_log st @ [Cannot_match_exo_vert exo_id] \<rparr>))"

text \<open>
  From "Get nodes in cubit file" to the statistics. \<open>cub\<close> is the result of the two
  database queries for the vertices of the file set and their global ids. A non-zero
  \<open>lost\<close> is printed; the \<open>return MB_FAILURE\<close> after it is commented out in the source.
\<close>

definition update_nodes ::
  "(int \<times> EntityHandle) list outcome \<Rightarrow> (int \<times> 'c) list \<Rightarrow> (EntityHandle \<rightharpoonup> 'c)
     \<Rightarrow> 'c match_state outcome" where
  "update_nodes cub exo_nodes coords =
     (case cub of
        Err e \<Rightarrow> Err e
      | Undefined \<Rightarrow> Undefined
      | Ok cub_pairs \<Rightarrow>
          (case match_nodes_loop (build_id_map cub_pairs Map.empty) exo_nodes
                  \<lparr> ms_found = 0, ms_lost = 0, ms_matched = Map.empty, ms_coords = coords,
                    ms_log = [] \<rparr> of
             Err e \<Rightarrow> Err e
           | Undefined \<Rightarrow> Undefined
           | Ok st \<Rightarrow>
               Ok (st\<lparr> ms_log := ms_log st @ [Nodes_matched (ms_found st)] @
                        (if ms_lost st \<noteq> 0 then [Nodes_not_matched (ms_lost st)] else []) \<rparr>)))"

text \<open>
  The rest of \<open>update\<close> after the directive and the file have been read: the node pass,
  then the removal of the dead elements, which receives the matched-node map and is a
  parameter here.
\<close>

definition apply_update ::
  "(int \<times> EntityHandle) list outcome \<Rightarrow> (int \<times> 'c) list \<Rightarrow> (EntityHandle \<rightharpoonup> 'c)
     \<Rightarrow> ((int \<rightharpoonup> EntityHandle) \<Rightarrow> (EntityHandle \<rightharpoonup> 'c) \<Rightarrow> unit outcome) \<Rightarrow> unit outcome" where
  "apply_update cub exo_nodes coords remove_dead_elements =
     (case update_nodes cub exo_nodes coords of
        Err e \<Rightarrow> Err e
      | Undefined \<Rightarrow> Undefined
      | Ok st \<Rightarrow> remove_dead_elements (ms_matched st) (ms_coords st))"

text \<open>
  \<open>update\<close>. \<open>tdata\<close> is the option string (\<open>None\<close> when the option cannot be read).
  \<open>read_deformed\<close> stands for everything read from the file between the check of the
  operation and the check of the variable name (header, time steps, \<open>node_num_map\<close>,
  coordinates and displacements at the time step); it gives the entries of the node
  pass or the error code with which \<open>update\<close> returns.
\<close>

definition update ::
  "(string \<Rightarrow> int \<times> string) \<Rightarrow> string option \<Rightarrow> (int \<Rightarrow> (int \<times> 'c) list outcome)
     \<Rightarrow> (int \<times> EntityHandle) list outcome \<Rightarrow> (EntityHandle \<rightharpoonup> 'c)
     \<Rightarrow> ((int \<rightharpoonup> EntityHandle) \<Rightarrow> (EntityHandle \<rightharpoonup> 'c) \<Rightarrow> unit outcome) \<Rightarrow> unit outcome" where
  "update strtol tdata read_deformed cub coords remove_dead_elements =
     (case tdata of
        None \<Rightarrow> Err MB_FAILURE
      | Some s \<Rightarrow>
          let tokens = tokenize s '',''
          in (case parse_time_step strtol tokens of
                Err e \<Rightarrow> Err e
              | Undefined \<Rightarrow> Undefined
              | Ok time_step \<Rightarrow>
                  if length tokens < 3 \<or> (tokens ! 2 \<noteq> ''set'' \<and> tokens ! 2 \<noteq> ''add'')
                  then Err MB_TYPE_OUT_OF_RANGE
                  else
                    let op = tokens ! 2
                    in (case read_deformed time_step of
                          Err e \<Rightarrow> Err e
                        | Undefined \<Rightarrow> Undefined
                        | Ok exo_nodes \<Rightarrow>
                            if tokens ! 0 \<noteq> ''coord'' \<and> tokens ! 0 \<noteq> ''COORD''
                            then Err MB_NOT_IMPLEMENTED
                            else if strcmp op ''set'' \<noteq> 0 \<and> strcmp op '' set'' \<noteq> 0
                            then Err MB_NOT_IMPLEMENTED
                            else apply_update cub exo_nodes coords remove_dead_elements)))"

text \<open>
  C5, as amended. For a directive of at least three tokens with a valid time step, whose
  file can be read: an operation other than \<open>set\<close> and \<open>add\<close> returns
  \<open>MB_TYPE_OUT_OF_RANGE\<close>; with operation \<open>set\<close> or \<open>add\<close>, a variable name that is
  neither \<open>coord\<close> nor \<open>COORD\<close> returns \<open>MB_NOT_IMPLEMENTED\<close>; the operation \<open>add\<close>
  returns \<open>MB_NOT_IMPLEMENTED\<close>; and \<open>coord\<close> or \<open>COORD\<close> with \<open>set\<close> goes on to
  the update itself.
\<close>

theorem update_not_implemented_cases:
  assumes "tokenize s '','' = tokens"
      and "parse_time_step strtol tokens = Ok time_step"
      and "3 \<le> length tokens"
      and "read_deformed time_step = Ok exo_nodes"
  shows "(tokens ! 2 \<noteq> ''set'' \<and> tokens ! 2 \<noteq> ''add'' \<longrightarrow>
            update strtol (Some s) read_deformed cub coords remove_dead_elements =
              Err MB_TYPE_OUT_OF_RANGE)
       \<and> ((tokens ! 2 = ''set'' \<or> tokens ! 2 = ''add'') \<and>
          tokens ! 0 \<noteq> ''coord'' \<and> tokens ! 0 \<noteq> ''COORD'' \<longrightarrow>
            update strtol (Some s) read_deformed cub coords remove_dead_elements =
              Err MB_NOT_IMPLEMENTED)
       \<and> (tokens ! 2 = ''add'' \<longrightarrow>
            update strtol (Some s) read_deformed cub coords remove_dead_elements =
              Err MB_NOT_IMPLEMENTED)
       \<and> (tokens ! 2 = ''set'' \<and> (tokens ! 0 = ''coord'' \<or> tokens ! 0 = ''COORD'') \<longrightarrow>
            update strtol (Some s) read_deformed cub coords remove_dead_elements =
              apply_update cub exo_nodes coords remove_dead_elements)"
  using assms
  by (auto simp: update_def Let_def strcmp_def)

text \<open>
  An instance of \<open>strtol\<close> for the examples: it parses leading decimal digits, which is
  what \<open>strtol\<close> with base 0 does on a string of digits that does not start with 0.
\<close>

fun dec_digits :: "string \<Rightarrow> int \<Rightarrow> int \<times> string" where
  "dec_digits [] acc = (acc, [])"
| "dec_digits (c # cs) acc =
     (let n = (of_char c :: nat) in
      if 48 \<le> n \<and> n \<le> 57 then dec_digits cs (10 * acc + int (n - 48)) else (acc, c # cs))"

definition dec_strtol :: "string \<Rightarrow> int \<times> string" where
  "dec_strtol s = dec_digits s 0"

text \<open>A file that reads without error and has no nodes, and a removal that does nothing.\<close>

definition no_exo_nodes :: "int \<Rightarrow> (int \<times> int) list outcome" where
  "no_exo_nodes time_step = Ok []"

definition keep_all_elements :: "(int \<rightharpoonup> EntityHandle) \<Rightarrow> (EntityHandle \<rightharpoonup> int) \<Rightarrow> unit outcome" where
  "keep_all_elements matched coords = Ok ()"

theorem update_not_implemented_cases_witness:
  "tokenize ''temp,1,set'' '','' = [''temp'', ''1'', ''set''] \<and>
   parse_time_step dec_strtol [''temp'', ''1'', ''set''] = Ok 1 \<and>
   no_exo_nodes 1 = Ok [] \<and>
   update dec_strtol (Some ''temp,1,set'') no_exo_nodes (Ok []) Map.empty keep_all_elements =
     Err MB_NOT_IMPLEMENTED \<and>
   tokenize ''coord,1,add'' '','' = [''coord'', ''1'', ''add''] \<and>
   update dec_strtol (Some ''coord,1,add'') no_exo_nodes (Ok []) Map.empty keep_all_elements =
     Err MB_NOT_IMPLEMENTED"
proof -
  have t1: "tokenize ''temp,1,set'' '','' = [''temp'', ''1'', ''set'']"
    by code_simp
  have t2: "tokenize ''coord,1,add'' '','' = [''coord'', ''1'', ''add'']"
    by code_simp
  have p1: "parse_time_step dec_strtol [''temp'', ''1'', ''set''] = Ok 1"
    by (simp add: parse_time_step_def dec_strtol_def)
  have p2: "parse_time_step dec_strtol [''coord'', ''1'', ''add''] = Ok 1"
    by (simp add: parse_time_step_def dec_strtol_def)
  have r: "no_exo_nodes 1 = Ok []"
    by (simp add: no_exo_nodes_def)
  have l1: "3 \<le> length [''temp'', ''1'', ''set'']" and l2: "3 \<le> length [''coord'', ''1'', ''add'']"
    by simp_all
  from update_not_implemented_cases [where read_deformed = no_exo_nodes and cub = "Ok []"
      and coords = Map.empty and remove_dead_elements = keep_all_elements, OF t1 p1 l1 r]
  have u1: "update dec_strtol (Some ''temp,1,set'') no_exo_nodes (Ok []) Map.empty
              keep_all_elements = Err MB_NOT_IMPLEMENTED"
    by simp
  from update_not_implemented_cases [where read_deformed = no_exo_nodes and cub = "Ok []"
      and coords = Map.empty and remove_dead_elements = keep_all_elements, OF t2 p2 l2 r]
  have u2: "update dec_strtol (Some ''coord,1,add'') no_exo_nodes (Ok []) Map.empty
              keep_all_elements = Err MB_NOT_IMPLEMENTED"
    by simp
  from t1 t2 p1 r u1 u2 show ?thesis by blast
qed

text \<open>
  C5 as stated fails: \<open>Coord\<close> equals \<open>coord\<close> up to case and is refused, and a
  directive whose operation is not \<open>set\<close> returns \<open>MB_TYPE_OUT_OF_RANGE\<close>, not
  \<open>MB_NOT_IMPLEMENTED\<close>, whatever its variable name.
\<close>

theorem update_refuses_mixed_case_and_unknown_op:
  "update dec_strtol (Some ''Coord,1,set'') no_exo_nodes (Ok []) Map.empty keep_all_elements =
     Err MB_NOT_IMPLEMENTED \<and>
   update dec_strtol (Some ''coord,1,delete'') no_exo_nodes (Ok []) Map.empty keep_all_elements =
     Err MB_TYPE_OUT_OF_RANGE \<and>
   update dec_strtol (Some ''temp,1,delete'') no_exo_nodes (Ok []) Map.empty keep_all_elements =
     Err MB_TYPE_OUT_OF_RANGE"
proof -
  have t1: "tokenize ''Coord,1,set'' '','' = [''Coord'', ''1'', ''set'']"
    by code_simp
  have t2: "tokenize ''coord,1,delete'' '','' = [''coord'', ''1'', ''delete'']"
    by code_simp
  have t3: "tokenize ''temp,1,delete'' '','' = [''temp'', ''1'', ''delete'']"
    by code_simp
  show ?thesis
    by (simp add: update_def t1 t2 t3 parse_time_step_def dec_strtol_def no_exo_nodes_def
          strcmp_def)
qed

lemma dom_map_insert: "dom (map_insert m k v) = insert k (dom m)"
  by (auto simp: map_insert_def split: option.splits)

lemma ran_map_insert: "ran (map_insert m k v) \<subseteq> insert v (ran m)"
  by (auto simp: map_insert_def ran_def split: option.splits if_splits)

lemma dom_build_id_map: "dom (build_id_map ps m) = dom m \<union> fst ` set ps"
proof (induction ps arbitrary: m)
  case Nil
  then show ?case by simp
next
  case (Cons p ps)
  obtain k v where p: "p = (k, v)" by (cases p)
  have "dom (build_id_map (p # ps) m) = insert k (dom m) \<union> fst ` set ps"
    by (simp add: p Cons.IH dom_map_insert)
  then show ?case by (auto simp: p)
qed

lemma ran_build_id_map: "ran (build_id_map ps m) \<subseteq> ran m \<union> snd ` set ps"
proof (induction ps arbitrary: m)
  case Nil
  then show ?case by simp
next
  case (Cons p ps)
  obtain k v where p: "p = (k, v)" by (cases p)
  from Cons.IH [of "map_insert m k v"] ran_map_insert [of m k v]
  show ?case by (auto simp: p)
qed

text \<open>An exodus node is matched when its id is a key of \<open>cub_verts_id_map\<close>.\<close>

definition is_matched :: "(int \<rightharpoonup> EntityHandle) \<Rightarrow> int \<times> 'c \<Rightarrow> bool" where
  "is_matched cub_verts_id_map n = (cub_verts_id_map (fst n) \<noteq> None)"

lemma match_nodes_loop_counts:
  assumes "ran cm \<subseteq> dom (ms_coords st)"
  shows "\<exists>st'. match_nodes_loop cm nodes st = Ok st' \<and>
           ms_found st' = ms_found st + int (length (filter (is_matched cm) nodes)) \<and>
           ms_lost st' = ms_lost st + int (length (filter (\<lambda>n. \<not> is_matched cm n) nodes)) \<and>
           dom (ms_matched st') = dom (ms_matched st) \<union> {e \<in> fst ` set nodes. cm e \<noteq> None}"
  using assms
proof (induction nodes arbitrary: st)
  case Nil
  then show ?case by simp
next
  case (Cons n nodes)
  obtain e c where n: "n = (e, c)" by (cases n)
  have im: "is_matched cm (e, c) \<longleftrightarrow> cm e \<noteq> None"
    by (simp add: is_matched_def)
  show ?case
  proof (cases "cm e")
    case None
    let ?st1 = "st\<lparr> ms_lost := ms_lost st + 1,
                     ms_log := ms_log st @ [Cannot_match_exo_vert e] \<rparr>"
    have "ran cm \<subseteq> dom (ms_coords ?st1)" using Cons.prems by simp
    from Cons.IH [OF this] obtain st' where
      "match_nodes_loop cm nodes ?st1 = Ok st'"
      "ms_found st' = ms_found ?st1 + int (length (filter (is_matched cm) nodes))"
      "ms_lost st' = ms_lost ?st1 + int (length (filter (\<lambda>n. \<not> is_matched cm n) nodes))"
      "dom (ms_matched st') = dom (ms_matched ?st1) \<union> {e \<in> fst ` set nodes. cm e \<noteq> None}"
      by blast
    with None show ?thesis
      by (auto simp: n im)
  next
    case (Some h)
    then have "h \<in> ran cm" by (auto simp: ran_def)
    with Cons.prems have hd: "h \<in> dom (ms_coords st)" by blast
    let ?st1 = "st\<lparr> ms_matched := map_insert (ms_matched st) e h,
                     ms_coords := (ms_coords st)(h \<mapsto> c),
                     ms_found := ms_found st + 1 \<rparr>"
    have "ran cm \<subseteq> dom (ms_coords ?st1)" using Cons.prems by auto
    from Cons.IH [OF this] obtain st' where
      "match_nodes_loop cm nodes ?st1 = Ok st'"
      "ms_found st' = ms_found ?st1 + int (length (filter (is_matched cm) nodes))"
      "ms_lost st' = ms_lost ?st1 + int (length (filter (\<lambda>n. \<not> is_matched cm n) nodes))"
      "dom (ms_matched st') = dom (ms_matched ?st1) \<union> {e \<in> fst ` set nodes. cm e \<noteq> None}"
      by blast
    with Some hd show ?thesis
      by (auto simp: n im set_coords_def dom_map_insert)
  qed
qed

text \<open>
  C10. When the vertices of the file set are vertices of the database, the node pass
  returns normally; \<open>found\<close> counts the exodus nodes whose id is a global id of the
  file set and \<open>lost\<close> the others, so \<open>found + lost\<close> is the number of exodus nodes;
  the matched-node map holds exactly the matched ids; a non-zero \<open>lost\<close> is reported,
  and \<open>update\<close> goes on to the removal of dead elements with that map.
\<close>

theorem node_matching_counts_each_node_once:
  assumes "snd ` set cub_pairs \<subseteq> dom coords"
  shows "\<exists>st. update_nodes (Ok cub_pairs) exo_nodes coords = Ok st
       \<and> ms_found st = int (length (filter (\<lambda>n. fst n \<in> fst ` set cub_pairs) exo_nodes))
       \<and> ms_lost st = int (length (filter (\<lambda>n. fst n \<notin> fst ` set cub_pairs) exo_nodes))
       \<and> ms_found st + ms_lost st = int (length exo_nodes)
       \<and> dom (ms_matched st) = fst ` set exo_nodes \<inter> fst ` set cub_pairs
       \<and> (ms_lost st \<noteq> 0 \<longrightarrow> Nodes_not_matched (ms_lost st) \<in> set (ms_log st))
       \<and> apply_update (Ok cub_pairs) exo_nodes coords remove_dead_elements =
           remove_dead_elements (ms_matched st) (ms_coords st)"
proof -
  let ?cm = "build_id_map cub_pairs Map.empty"
  let ?st0 = "\<lparr> ms_found = 0, ms_lost = 0, ms_matched = Map.empty, ms_coords = coords,
                ms_log = [] \<rparr> :: 'a match_state"
  have dom_cm: "dom ?cm = fst ` set cub_pairs"
    by (simp add: dom_build_id_map)
  have im: "is_matched ?cm = (\<lambda>n :: int \<times> 'a. fst n \<in> fst ` set cub_pairs)"
    using dom_cm by (auto simp: is_matched_def fun_eq_iff)
  have "ran ?cm \<subseteq> snd ` set cub_pairs"
    using ran_build_id_map [of cub_pairs Map.empty] by simp
  with assms have "ran ?cm \<subseteq> dom (ms_coords ?st0)" by simp
  from match_nodes_loop_counts [OF this, of exo_nodes] obtain st' where
    run: "match_nodes_loop ?cm exo_nodes ?st0 = Ok st'" and
    f: "ms_found st' = int (length (filter (is_matched ?cm) exo_nodes))" and
    l: "ms_lost st' = int (length (filter (\<lambda>n. \<not> is_matched ?cm n) exo_nodes))" and
    d: "dom (ms_matched st') = {e \<in> fst ` set exo_nodes. ?cm e \<noteq> None}"
    by auto
  let ?st = "st'\<lparr> ms_log := ms_log st' @ [Nodes_matched (ms_found st')] @
                (if ms_lost st' \<noteq> 0 then [Nodes_not_matched (ms_lost st')] else []) \<rparr>"
  have u: "update_nodes (Ok cub_pairs) exo_nodes coords = Ok ?st"
    by (simp add: update_nodes_def run)
  have f': "ms_found ?st = int (length (filter (\<lambda>n. fst n \<in> fst ` set cub_pairs) exo_nodes))"
    using f by (simp add: im)
  have l': "ms_lost ?st = int (length (filter (\<lambda>n. fst n \<notin> fst ` set cub_pairs) exo_nodes))"
    using l by (simp add: im)
  have total: "ms_found ?st + ms_lost ?st = int (length exo_nodes)"
    unfolding f' l'
    using sum_length_filter_compl [of "\<lambda>n. fst n \<in> fst ` set cub_pairs" exo_nodes]
    by simp
  have d': "dom (ms_matched ?st) = fst ` set exo_nodes \<inter> fst ` set cub_pairs"
    using d dom_cm by auto
  have rep: "ms_lost ?st \<noteq> 0 \<longrightarrow> Nodes_not_matched (ms_lost ?st) \<in> set (ms_log ?st)"
    by simp
  have ap: "apply_update (Ok cub_pairs) exo_nodes coords remove_dead_elements =
           remove_dead_elements (ms_matched ?st) (ms_coords ?st)"
    by (simp add: apply_update_def u)
  from u f' l' total d' rep ap show ?thesis by blast
qed

text \<open>
  Three exodus nodes with the ids 7, 9, 8 against a file set with the ids 7 and 8: two
  are found and moved, one is lost, and the removal of dead elements is reached.
\<close>

definition three_exo_nodes :: "(int \<times> int) list" where
  "three_exo_nodes = [(7, 5), (9, 6), (8, 4)]"

definition two_cub_verts :: "(int \<times> EntityHandle) list" where
  "two_cub_verts = [(7, 30), (8, 31)]"

theorem node_matching_counts_each_node_once_witness:
  "snd ` set two_cub_verts \<subseteq> dom [30 \<mapsto> 0 :: int, 31 \<mapsto> 0] \<and>
   update_nodes (Ok two_cub_verts) three_exo_nodes [30 \<mapsto> 0, 31 \<mapsto> 0] =
     Ok \<lparr> ms_found = 2, ms_lost = 1, ms_matched = [7 \<mapsto> 30, 8 \<mapsto> 31],
          ms_coords = [30 \<mapsto> 5, 31 \<mapsto> 4],
          ms_log = [Cannot_match_exo_vert 9, Nodes_matched 2, Nodes_not_matched 1] \<rparr> \<and>
   (2 :: int) + 1 = int (length three_exo_nodes) \<and>
   apply_update (Ok two_cub_verts) three_exo_nodes [30 \<mapsto> 0, 31 \<mapsto> 0] keep_all_elements = Ok ()"
proof -
  have sub: "snd ` set two_cub_verts \<subseteq> dom [30 \<mapsto> 0 :: int, 31 \<mapsto> 0]"
    by (simp add: two_cub_verts_def)
  have run: "update_nodes (Ok two_cub_verts) three_exo_nodes [30 \<mapsto> 0, 31 \<mapsto> 0] =
     Ok \<lparr> ms_found = 2, ms_lost = 1, ms_matched = [7 \<mapsto> 30, 8 \<mapsto> 31],
          ms_coords = [30 \<mapsto> 5, 31 \<mapsto> 4],
          ms_log = [Cannot_match_exo_vert 9, Nodes_matched 2, Nodes_not_matched 1] \<rparr>"
    by (simp add: update_nodes_def two_cub_verts_def three_exo_nodes_def map_insert_def
          set_coords_def)
  from node_matching_counts_each_node_once [OF sub, of three_exo_nodes keep_all_elements]
  obtain st where
    "update_nodes (Ok two_cub_verts) three_exo_nodes [30 \<mapsto> 0, 31 \<mapsto> 0] = Ok st"
    "ms_found st + ms_lost st = int (length three_exo_nodes)"
    "apply_update (Ok two_cub_verts) three_exo_nodes [30 \<mapsto> 0, 31 \<mapsto> 0] keep_all_elements =
       keep_all_elements (ms_matched st) (ms_coords st)"
    by blast
  with run sub show ?thesis
    by (auto simp: keep_all_elements_def)
qed

text \<open>The tokenizer on three directives.\<close>

lemma tokenize_three_tokens: "tokenize ''coord,2,set'' '','' = [''coord'', ''2'', ''set'']"
  by code_simp

lemma tokenize_without_delimiter: "tokenize ''coord'' '','' = []"
  by code_simp

lemma tokenize_skips_empty_tokens: "tokenize '',,a,,b,'' '','' = [''a'', ''b'']"
  by code_simp

end
